theory Spec2Isabelle
  imports Main "HOL-Library.Word" "HOL-Library.Multiset"
begin

section \<open>Errors\<close>

text \<open>
  Go's \<^verbatim>\<open>error\<close> values, as far as the code under study tells them apart.
  The REST handlers switch on the dynamic type of the error: \<^verbatim>\<open>errors.Forbidden\<close>,
  \<^verbatim>\<open>kinds.ErrInvalidUserInput\<close>, \<^verbatim>\<open>kinds.ErrNotFound\<close>, or anything else.
  \<^verbatim>\<open>fmt.Errorf\<close> and \<^verbatim>\<open>errors.Wrap\<close> build values of other types, which fall
  into the \<^verbatim>\<open>default\<close> branch of such a switch.
\<close>

datatype error =
    Forbidden string
  | ErrInvalidUserInput string
  | ErrNotFound string
  | Errorf string
  | Wrap error string

section \<open>The include parameter\<close>

text \<open>\<^verbatim>\<open>projector.Params{}\<close>: the zero value of a struct declared outside the sources.\<close>

datatype projector_Params = Params_zero

text \<open>
  \<^verbatim>\<open>traverser.UnderscoreProperties\<close>, with the fields \<^verbatim>\<open>parseIncludeParam\<close> and the
  handlers write. \<^verbatim>\<open>FeatureProjection\<close> is a pointer: \<open>None\<close> is nil.
\<close>

record UnderscoreProperties =
  Classification :: bool
  RefMeta :: bool
  Vector :: bool
  NearestNeighbors :: bool
  Interpretation :: bool
  FeatureProjection :: "projector_Params option"

definition UnderscoreProperties_zero :: UnderscoreProperties where
  "UnderscoreProperties_zero =
     \<lparr>Classification = False, RefMeta = False, Vector = False, NearestNeighbors = False,
      Interpretation = False, FeatureProjection = None\<rparr>"

text \<open>
  \<^verbatim>\<open>strings.Split(s, ",")\<close>: the pieces of \<open>s\<close> between the separators; the empty
  string gives one empty piece.
\<close>

fun strings_Split :: "string \<Rightarrow> char \<Rightarrow> string list" where
  "strings_Split [] sep = [[]]"
| "strings_Split (c # cs) sep =
     (if c = sep then [] # strings_Split cs sep
      else (case strings_Split cs sep of
              [] \<Rightarrow> [[c]]
            | p # ps \<Rightarrow> (c # p) # ps))"

text \<open>
  The body of the \<^verbatim>\<open>for _, prop := range parts\<close> loop of \<^verbatim>\<open>parseIncludeParam\<close>: the
  switch on \<open>prop\<close>, in the order of the source; the default branch returns at once,
  with the value built so far and the error.
\<close>

fun parseIncludeParts :: "UnderscoreProperties \<Rightarrow> string list \<Rightarrow> UnderscoreProperties \<times> error option" where
  "parseIncludeParts out [] = (out, None)"
| "parseIncludeParts out (prop # parts) =
     (if prop \<in> set [''_classification'', ''classification''] then
        parseIncludeParts (out\<lparr>Classification := True, RefMeta := True\<rparr>) parts
      else if prop \<in> set [''_interpretation'', ''interpretation''] then
        parseIncludeParts (out\<lparr>Interpretation := True\<rparr>) parts
      else if prop \<in> set [''_nearestNeighbors'', ''nearestNeighbors'', ''nearestneighbors'',
                           ''_nearestneighbors'', ''nearest-neighbors'', ''nearest_neighbors'',
                           ''_nearest_neighbors''] then
        parseIncludeParts (out\<lparr>NearestNeighbors := True\<rparr>) parts
      else if prop \<in> set [''_featureProjection'', ''featureProjection'', ''featureprojection'',
                           ''_featureprojection'', ''feature-projection'', ''feature_projection'',
                           ''_feature_projection''] then
        parseIncludeParts (out\<lparr>FeatureProjection := Some Params_zero\<rparr>) parts
      else if prop \<in> set [''_vector'', ''vector''] then
        parseIncludeParts (out\<lparr>Vector := True\<rparr>) parts
      else
        (out, Some (Errorf (''unrecognized property '' @ [CHR 0x27] @ prop @ [CHR 0x27]
                            @ '' in ?include list''))))"

text \<open>\<^verbatim>\<open>parseIncludeParam(in *string)\<close>: \<open>None\<close> is the nil pointer.\<close>

definition parseIncludeParam :: "string option \<Rightarrow> UnderscoreProperties \<times> error option" where
  "parseIncludeParam inp =
     (case inp of
        None \<Rightarrow> (UnderscoreProperties_zero, None)
      | Some s \<Rightarrow> parseIncludeParts UnderscoreProperties_zero (strings_Split s (CHR '','')))"

text \<open>The case labels of the switch in \<^verbatim>\<open>parseIncludeParam\<close>, all of them.\<close>

definition includeCaseLabels :: "string list" where
  "includeCaseLabels =
     [''_classification'', ''classification'',
      ''_interpretation'', ''interpretation'',
      ''_nearestNeighbors'', ''nearestNeighbors'', ''nearestneighbors'',
      ''_nearestneighbors'', ''nearest-neighbors'', ''nearest_neighbors'',
      ''_nearest_neighbors'',
      ''_featureProjection'', ''featureProjection'', ''featureprojection'',
      ''_featureprojection'', ''feature-projection'', ''feature_projection'',
      ''_feature_projection'',
      ''_vector'', ''vector'']"

text \<open>
  The reading of the specification: every enrichment value of its section 6, in a
  camel-cased spelling and in the same spelling with a leading underscore.
\<close>

definition spec_enrichmentValues :: "string list" where
  "spec_enrichmentValues =
     [''classification'', ''refMeta'', ''vector'', ''nearestNeighbors'',
      ''featureProjection'', ''interpretation'']"

definition spec_includeSpellings :: "string list" where
  "spec_includeSpellings =
     spec_enrichmentValues @ map (\<lambda>v. CHR ''_'' # v) spec_enrichmentValues"

section \<open>REST handlers for things and actions\<close>

subsection \<open>Responders\<close>

text \<open>
  The handlers answer with responders generated by go-swagger, one constructor per
  operation and outcome (\<^verbatim>\<open>things.NewThingsCreateForbidden()\<close> and so on). The
  generated packages are not part of the sources under study; a responder is modelled
  by the operation and the outcome its constructor names, and its payload.
\<close>

datatype operation =
    ThingsCreate | ThingsValidate | ThingsGet | ThingsList | ThingsUpdate
  | ThingsDelete | ThingsPatch
  | ThingsReferencesCreate | ThingsReferencesUpdate | ThingsReferencesDelete
  | ActionsCreate | ActionsValidate | ActionsGet | ActionsList | ActionsUpdate
  | ActionsDelete | ActionsPatch
  | ActionsReferencesCreate | ActionsReferencesUpdate | ActionsReferencesDelete

datatype status =
    OK | NoContent | BadRequest | StatusForbidden | NotFound | UnprocessableEntity
  | InternalServerError

text \<open>
  Modelled from the spec: the HTTP status code a generated responder writes
  (\<^verbatim>\<open>NotFound\<close> is 404, \<^verbatim>\<open>UnprocessableEntity\<close> 422, \<^verbatim>\<open>Forbidden\<close> 403,
  \<^verbatim>\<open>InternalServerError\<close> 500; the others have their standard HTTP codes).
\<close>

fun statusCode :: "status \<Rightarrow> nat" where
  "statusCode OK = 200"
| "statusCode NoContent = 204"
| "statusCode BadRequest = 400"
| "statusCode StatusForbidden = 403"
| "statusCode NotFound = 404"
| "statusCode UnprocessableEntity = 422"
| "statusCode InternalServerError = 500"

text \<open>\<^verbatim>\<open>models.SingleRef\<close> and \<^verbatim>\<open>models.MultipleRef\<close>, a list of references.\<close>

record SingleRef =
  Beacon :: string
  Href :: string

text \<open>
  The schema of a thing or action is an \<^verbatim>\<open>interface{}\<close>. The handlers test it for
  \<^verbatim>\<open>map[string]interface{}\<close> and the values of that map for \<^verbatim>\<open>models.MultipleRef\<close>;
  all other dynamic types are opaque to them. The map is an association list with
  distinct keys.
\<close>

datatype schemaValue = MultipleRef "SingleRef list" | OtherValue string

datatype schema = SchemaMap "(string \<times> schemaValue) list" | SchemaOther string

text \<open>
  \<^verbatim>\<open>models.Thing\<close> and \<^verbatim>\<open>models.Action\<close> are two generated structs of the same shape;
  the handlers read and write only \<^verbatim>\<open>Schema\<close>.
\<close>

record KindObject =
  ID :: string
  Class :: string
  Schema :: schema

type_synonym Thing = KindObject
type_synonym Action = KindObject

record Deprecation =
  DeprecationID :: string
  Msg :: string

text \<open>\<^verbatim>\<open>models.ThingsListResponse\<close> and \<^verbatim>\<open>models.ActionsListResponse\<close>; \<^verbatim>\<open>TotalResults\<close> is an \<^verbatim>\<open>int64\<close>.\<close>

record ThingsListResponse =
  Things :: "Thing list"
  Things_TotalResults :: "64 word"
  Things_Deprecations :: "Deprecation list"

record ActionsListResponse =
  Actions :: "Action list"
  Actions_Deprecations :: "Deprecation list"
  Actions_TotalResults :: "64 word"

datatype payload =
    NoPayload
  | ErrorPayload error
  | ThingPayload Thing
  | ActionPayload Action
  | ThingsListPayload ThingsListResponse
  | ActionsListPayload ActionsListResponse

datatype responder = Responder operation status payload

fun statusOf :: "responder \<Rightarrow> status" where
  "statusOf (Responder opn st pl) = st"

subsection \<open>The manager and the handler object\<close>

type_synonym principal = "string option"

text \<open>
  The interface \<^verbatim>\<open>kindsManager\<close>. Every method takes a context and a principal first;
  the context (\<^verbatim>\<open>params.HTTPRequest.Context()\<close>) is left out. A method that returns
  \<^verbatim>\<open>error\<close> alone returns \<open>None\<close> for nil; one that returns a value and an error
  returns \<open>Inl\<close> for a non-nil error.
\<close>

record kindsManager =
  AddThing :: "principal \<Rightarrow> Thing \<Rightarrow> error + Thing"
  AddAction :: "principal \<Rightarrow> Action \<Rightarrow> error + Action"
  ValidateThing :: "principal \<Rightarrow> Thing \<Rightarrow> error option"
  ValidateAction :: "principal \<Rightarrow> Action \<Rightarrow> error option"
  GetThing :: "principal \<Rightarrow> string \<Rightarrow> UnderscoreProperties \<Rightarrow> error + Thing"
  GetAction :: "principal \<Rightarrow> string \<Rightarrow> UnderscoreProperties \<Rightarrow> error + Action"
  GetThings :: "principal \<Rightarrow> 64 word option \<Rightarrow> UnderscoreProperties \<Rightarrow> error + Thing list"
  GetActions :: "principal \<Rightarrow> 64 word option \<Rightarrow> UnderscoreProperties \<Rightarrow> error + Action list"
  UpdateThing :: "principal \<Rightarrow> string \<Rightarrow> Thing \<Rightarrow> error + Thing"
  UpdateAction :: "principal \<Rightarrow> string \<Rightarrow> Action \<Rightarrow> error + Action"
  MergeThing :: "principal \<Rightarrow> string \<Rightarrow> Thing \<Rightarrow> error option"
  MergeAction :: "principal \<Rightarrow> string \<Rightarrow> Action \<Rightarrow> error option"
  DeleteThing :: "principal \<Rightarrow> string \<Rightarrow> error option"
  DeleteAction :: "principal \<Rightarrow> string \<Rightarrow> error option"
  AddThingReference :: "principal \<Rightarrow> string \<Rightarrow> string \<Rightarrow> SingleRef \<Rightarrow> error option"
  AddActionReference :: "principal \<Rightarrow> string \<Rightarrow> string \<Rightarrow> SingleRef \<Rightarrow> error option"
  UpdateThingReferences :: "principal \<Rightarrow> string \<Rightarrow> string \<Rightarrow> SingleRef list \<Rightarrow> error option"
  UpdateActionReferences :: "principal \<Rightarrow> string \<Rightarrow> string \<Rightarrow> SingleRef list \<Rightarrow> error option"
  DeleteThingReference :: "principal \<Rightarrow> string \<Rightarrow> string \<Rightarrow> SingleRef \<Rightarrow> error option"
  DeleteActionReference :: "principal \<Rightarrow> string \<Rightarrow> string \<Rightarrow> SingleRef \<Rightarrow> error option"

text \<open>
  The struct \<^verbatim>\<open>kindHandlers\<close>: the manager and, of the configuration, the origin.
  The logger only logs and is left out. Two functions of other packages the handlers
  call are carried along as parameters: \<^verbatim>\<open>crossref.Parse\<close>, which gives
  \<^verbatim>\<open>parsed.Kind.Name()\<close> and \<^verbatim>\<open>parsed.TargetID\<close> of a beacon or an error, and the
  table \<^verbatim>\<open>deprecations.ByID\<close>.
\<close>

record kindHandlers =
  manager :: kindsManager
  config_Origin :: string
  crossref_Parse :: "string \<Rightarrow> error + (string \<times> string)"
  deprecations_ByID :: "string \<Rightarrow> Deprecation"

subsection \<open>Helpers of the handlers\<close>

definition derefBool :: "bool option \<Rightarrow> bool" where
  "derefBool inp = (case inp of None \<Rightarrow> False | Some b \<Rightarrow> b)"

text \<open>
  \<^verbatim>\<open>fmt.Sprintf("%s/v1/%ss/%s", h.config.Origin, parsed.Kind.Name(), parsed.TargetID)\<close>;
  a beacon that does not parse leaves the reference unchanged.
\<close>

definition extendReferenceWithAPILink :: "kindHandlers \<Rightarrow> SingleRef \<Rightarrow> SingleRef" where
  "extendReferenceWithAPILink h ref =
     (case crossref_Parse h (Beacon ref) of
        Inl err \<Rightarrow> ref
      | Inr (kindName, targetID) \<Rightarrow>
          ref\<lparr>Href := config_Origin h @ ''/v1/'' @ kindName @ ''s/'' @ targetID\<rparr>)"

definition extendReferencesWithAPILinks :: "kindHandlers \<Rightarrow> SingleRef list \<Rightarrow> SingleRef list" where
  "extendReferencesWithAPILinks h refs = map (extendReferenceWithAPILink h) refs"

text \<open>
  \<^verbatim>\<open>extendSchemaWithAPILinks\<close>: every value of the map that is a
  \<^verbatim>\<open>models.MultipleRef\<close> is replaced, the others are skipped.
\<close>

definition extendSchemaWithAPILinks ::
  "kindHandlers \<Rightarrow> (string \<times> schemaValue) list \<Rightarrow> (string \<times> schemaValue) list" where
  "extendSchemaWithAPILinks h sch =
     map (\<lambda>(key, val).
            (case val of
               MultipleRef asMultiRef \<Rightarrow> (key, MultipleRef (extendReferencesWithAPILinks h asMultiRef))
             | OtherValue v \<Rightarrow> (key, val))) sch"

text \<open>
  The lines every handler with a thing or action in hand runs:
  \<^verbatim>\<open>schemaMap, ok := x.Schema.(map[string]interface{}); if ok { x.Schema = ... }\<close>.
\<close>

definition extendKindObject :: "kindHandlers \<Rightarrow> KindObject \<Rightarrow> KindObject" where
  "extendKindObject h x =
     (case Schema x of
        SchemaMap schemaMap \<Rightarrow> x\<lparr>Schema := SchemaMap (extendSchemaWithAPILinks h schemaMap)\<rparr>
      | SchemaOther v \<Rightarrow> x)"

text \<open>The deprecated \<^verbatim>\<open>meta\<close> parameter switches three enrichments on.\<close>

definition applyMeta :: "bool option \<Rightarrow> UnderscoreProperties \<Rightarrow> UnderscoreProperties" where
  "applyMeta meta underscores =
     (if derefBool meta
      then underscores\<lparr>Classification := True, RefMeta := True, Vector := True\<rparr>
      else underscores)"

subsection \<open>The handlers\<close>

text \<open>
  A handler takes the fields of its \<^verbatim>\<open>params\<close> that it reads, in the order in which
  it passes them to the manager, and the principal. The type switch on the error is kept
  branch by branch. \<^verbatim>\<open>errPayloadFromSingleErr(err)\<close> is the payload holding the error.
\<close>

definition addThing :: "kindHandlers \<Rightarrow> Thing \<Rightarrow> principal \<Rightarrow> responder" where
  "addThing h body pr =
     (case AddThing (manager h) pr body of
        Inl err \<Rightarrow>
          (case err of
             Forbidden m \<Rightarrow> Responder ThingsCreate StatusForbidden (ErrorPayload err)
           | ErrInvalidUserInput m \<Rightarrow> Responder ThingsCreate UnprocessableEntity (ErrorPayload err)
           | _ \<Rightarrow> Responder ThingsCreate InternalServerError (ErrorPayload err))
      | Inr x \<Rightarrow> Responder ThingsCreate OK (ThingPayload (extendKindObject h x)))"

definition validateThing :: "kindHandlers \<Rightarrow> Thing \<Rightarrow> principal \<Rightarrow> responder" where
  "validateThing h body pr =
     (case ValidateThing (manager h) pr body of
        Some err \<Rightarrow>
          (case err of
             Forbidden m \<Rightarrow> Responder ThingsValidate StatusForbidden (ErrorPayload err)
           | ErrInvalidUserInput m \<Rightarrow> Responder ThingsValidate UnprocessableEntity (ErrorPayload err)
           | _ \<Rightarrow> Responder ThingsValidate InternalServerError (ErrorPayload err))
      | None \<Rightarrow> Responder ThingsValidate OK NoPayload)"

definition getThing :: "kindHandlers \<Rightarrow> string \<Rightarrow> string option \<Rightarrow> bool option \<Rightarrow> principal \<Rightarrow> responder" where
  "getThing h uid include meta pr =
     (case parseIncludeParam include of
        (underscores, Some err) \<Rightarrow> Responder ThingsGet BadRequest (ErrorPayload err)
      | (underscores, None) \<Rightarrow>
          (case GetThing (manager h) pr uid (applyMeta meta underscores) of
             Inl err \<Rightarrow>
               (case err of
                  Forbidden m \<Rightarrow> Responder ThingsGet StatusForbidden (ErrorPayload err)
                | ErrNotFound m \<Rightarrow> Responder ThingsGet NotFound NoPayload
                | _ \<Rightarrow> Responder ThingsGet InternalServerError (ErrorPayload err))
           | Inr x \<Rightarrow> Responder ThingsGet OK (ThingPayload (extendKindObject h x))))"

text \<open>
  \<^verbatim>\<open>getThings\<close>: the loop over the list rewrites the schema of every element in place;
  \<^verbatim>\<open>TotalResults\<close> is \<^verbatim>\<open>int64(len(list))\<close>.
\<close>

definition getThings :: "kindHandlers \<Rightarrow> 64 word option \<Rightarrow> string option \<Rightarrow> bool option \<Rightarrow> principal \<Rightarrow> responder" where
  "getThings h limit include meta pr =
     (case parseIncludeParam include of
        (underscores, Some err) \<Rightarrow> Responder ThingsList BadRequest (ErrorPayload err)
      | (underscores, None) \<Rightarrow>
          (let deprecationsRes = (if derefBool meta then [deprecations_ByID h ''rest-meta-prop''] else [])
           in case GetThings (manager h) pr limit (applyMeta meta underscores) of
                Inl err \<Rightarrow>
                  (case err of
                     Forbidden m \<Rightarrow> Responder ThingsList StatusForbidden (ErrorPayload err)
                   | _ \<Rightarrow> Responder ThingsList InternalServerError (ErrorPayload err))
              | Inr list \<Rightarrow>
                  (let list' = map (extendKindObject h) list
                   in Responder ThingsList OK
                        (ThingsListPayload
                           \<lparr>Things = list',
                            Things_TotalResults = of_nat (length list'),
                            Things_Deprecations = deprecationsRes\<rparr>))))"

definition updateThing :: "kindHandlers \<Rightarrow> string \<Rightarrow> Thing \<Rightarrow> principal \<Rightarrow> responder" where
  "updateThing h uid body pr =
     (case UpdateThing (manager h) pr uid body of
        Inl err \<Rightarrow>
          (case err of
             Forbidden m \<Rightarrow> Responder ThingsUpdate StatusForbidden (ErrorPayload err)
           | ErrInvalidUserInput m \<Rightarrow> Responder ThingsUpdate UnprocessableEntity (ErrorPayload err)
           | _ \<Rightarrow> Responder ThingsUpdate InternalServerError (ErrorPayload err))
      | Inr x \<Rightarrow> Responder ThingsUpdate OK (ThingPayload (extendKindObject h x)))"

definition deleteThing :: "kindHandlers \<Rightarrow> string \<Rightarrow> principal \<Rightarrow> responder" where
  "deleteThing h uid pr =
     (case DeleteThing (manager h) pr uid of
        Some err \<Rightarrow>
          (case err of
             Forbidden m \<Rightarrow> Responder ThingsDelete StatusForbidden (ErrorPayload err)
           | ErrNotFound m \<Rightarrow> Responder ThingsDelete NotFound NoPayload
           | _ \<Rightarrow> Responder ThingsDelete InternalServerError (ErrorPayload err))
      | None \<Rightarrow> Responder ThingsDelete NoContent NoPayload)"

text \<open>
  The patch handler answers an invalid input and any other error with the responders
  of the update operation, as the source does.
\<close>

definition patchThing :: "kindHandlers \<Rightarrow> string \<Rightarrow> Thing \<Rightarrow> principal \<Rightarrow> responder" where
  "patchThing h uid body pr =
     (case MergeThing (manager h) pr uid body of
        Some err \<Rightarrow>
          (case err of
             Forbidden m \<Rightarrow> Responder ThingsPatch StatusForbidden (ErrorPayload err)
           | ErrInvalidUserInput m \<Rightarrow> Responder ThingsUpdate UnprocessableEntity (ErrorPayload err)
           | _ \<Rightarrow> Responder ThingsUpdate InternalServerError (ErrorPayload err))
      | None \<Rightarrow> Responder ThingsPatch NoContent NoPayload)"

definition addThingReference :: "kindHandlers \<Rightarrow> string \<Rightarrow> string \<Rightarrow> SingleRef \<Rightarrow> principal \<Rightarrow> responder" where
  "addThingReference h uid propertyName body pr =
     (case AddThingReference (manager h) pr uid propertyName body of
        Some err \<Rightarrow>
          (case err of
             Forbidden m \<Rightarrow> Responder ThingsReferencesCreate StatusForbidden (ErrorPayload err)
           | ErrNotFound m \<Rightarrow> Responder ThingsReferencesCreate UnprocessableEntity (ErrorPayload err)
           | ErrInvalidUserInput m \<Rightarrow> Responder ThingsReferencesCreate UnprocessableEntity (ErrorPayload err)
           | _ \<Rightarrow> Responder ThingsReferencesCreate InternalServerError (ErrorPayload err))
      | None \<Rightarrow> Responder ThingsReferencesCreate OK NoPayload)"

definition updateThingReferences :: "kindHandlers \<Rightarrow> string \<Rightarrow> string \<Rightarrow> SingleRef list \<Rightarrow> principal \<Rightarrow> responder" where
  "updateThingReferences h uid propertyName body pr =
     (case UpdateThingReferences (manager h) pr uid propertyName body of
        Some err \<Rightarrow>
          (case err of
             Forbidden m \<Rightarrow> Responder ThingsReferencesUpdate StatusForbidden (ErrorPayload err)
           | ErrNotFound m \<Rightarrow> Responder ThingsReferencesUpdate UnprocessableEntity (ErrorPayload err)
           | ErrInvalidUserInput m \<Rightarrow> Responder ThingsReferencesUpdate UnprocessableEntity (ErrorPayload err)
           | _ \<Rightarrow> Responder ThingsReferencesUpdate InternalServerError (ErrorPayload err))
      | None \<Rightarrow> Responder ThingsReferencesUpdate OK NoPayload)"

definition deleteThingReference :: "kindHandlers \<Rightarrow> string \<Rightarrow> string \<Rightarrow> SingleRef \<Rightarrow> principal \<Rightarrow> responder" where
  "deleteThingReference h uid propertyName body pr =
     (case DeleteThingReference (manager h) pr uid propertyName body of
        Some err \<Rightarrow>
          (case err of
             Forbidden m \<Rightarrow> Responder ThingsReferencesDelete StatusForbidden (ErrorPayload err)
           | ErrNotFound m \<Rightarrow> Responder ThingsReferencesDelete NotFound (ErrorPayload err)
           | ErrInvalidUserInput m \<Rightarrow> Responder ThingsReferencesDelete NotFound (ErrorPayload err)
           | _ \<Rightarrow> Responder ThingsReferencesDelete InternalServerError (ErrorPayload err))
      | None \<Rightarrow> Responder ThingsReferencesDelete NoContent NoPayload)"

definition addAction :: "kindHandlers \<Rightarrow> Action \<Rightarrow> principal \<Rightarrow> responder" where
  "addAction h body pr =
     (case AddAction (manager h) pr body of
        Inl err \<Rightarrow>
          (case err of
             Forbidden m \<Rightarrow> Responder ActionsCreate StatusForbidden (ErrorPayload err)
           | ErrInvalidUserInput m \<Rightarrow> Responder ActionsCreate UnprocessableEntity (ErrorPayload err)
           | _ \<Rightarrow> Responder ActionsCreate InternalServerError (ErrorPayload err))
      | Inr x \<Rightarrow> Responder ActionsCreate OK (ActionPayload (extendKindObject h x)))"

definition validateAction :: "kindHandlers \<Rightarrow> Action \<Rightarrow> principal \<Rightarrow> responder" where
  "validateAction h body pr =
     (case ValidateAction (manager h) pr body of
        Some err \<Rightarrow>
          (case err of
             Forbidden m \<Rightarrow> Responder ActionsValidate StatusForbidden (ErrorPayload err)
           | ErrInvalidUserInput m \<Rightarrow> Responder ActionsValidate UnprocessableEntity (ErrorPayload err)
           | _ \<Rightarrow> Responder ActionsValidate InternalServerError (ErrorPayload err))
      | None \<Rightarrow> Responder ActionsValidate OK NoPayload)"

definition getAction :: "kindHandlers \<Rightarrow> string \<Rightarrow> string option \<Rightarrow> bool option \<Rightarrow> principal \<Rightarrow> responder" where
  "getAction h uid include meta pr =
     (case parseIncludeParam include of
        (underscores, Some err) \<Rightarrow> Responder ActionsGet BadRequest (ErrorPayload err)
      | (underscores, None) \<Rightarrow>
          (case GetAction (manager h) pr uid (applyMeta meta underscores) of
             Inl err \<Rightarrow>
               (case err of
                  Forbidden m \<Rightarrow> Responder ActionsGet StatusForbidden (ErrorPayload err)
                | ErrNotFound m \<Rightarrow> Responder ActionsGet NotFound NoPayload
                | _ \<Rightarrow> Responder ActionsGet InternalServerError (ErrorPayload err))
           | Inr x \<Rightarrow> Responder ActionsGet OK (ActionPayload (extendKindObject h x))))"

definition getActions :: "kindHandlers \<Rightarrow> 64 word option \<Rightarrow> string option \<Rightarrow> bool option \<Rightarrow> principal \<Rightarrow> responder" where
  "getActions h limit include meta pr =
     (case parseIncludeParam include of
        (underscores, Some err) \<Rightarrow> Responder ActionsList BadRequest (ErrorPayload err)
      | (underscores, None) \<Rightarrow>
          (let deprecationsRes = (if derefBool meta then [deprecations_ByID h ''rest-meta-prop''] else [])
           in case GetActions (manager h) pr limit (applyMeta meta underscores) of
                Inl err \<Rightarrow>
                  (case err of
                     Forbidden m \<Rightarrow> Responder ActionsList StatusForbidden (ErrorPayload err)
                   | _ \<Rightarrow> Responder ActionsList InternalServerError (ErrorPayload err))
              | Inr list \<Rightarrow>
                  (let list' = map (extendKindObject h) list
                   in Responder ActionsList OK
                        (ActionsListPayload
                           \<lparr>Actions = list',
                            Actions_Deprecations = deprecationsRes,
                            Actions_TotalResults = of_nat (length list')\<rparr>))))"

definition updateAction :: "kindHandlers \<Rightarrow> string \<Rightarrow> Action \<Rightarrow> principal \<Rightarrow> responder" where
  "updateAction h uid body pr =
     (case UpdateAction (manager h) pr uid body of
        Inl err \<Rightarrow>
          (case err of
             Forbidden m \<Rightarrow> Responder ActionsUpdate StatusForbidden (ErrorPayload err)
           | ErrInvalidUserInput m \<Rightarrow> Responder ActionsUpdate UnprocessableEntity (ErrorPayload err)
           | _ \<Rightarrow> Responder ActionsUpdate InternalServerError (ErrorPayload err))
      | Inr x \<Rightarrow> Responder ActionsUpdate OK (ActionPayload (extendKindObject h x)))"

definition deleteAction :: "kindHandlers \<Rightarrow> string \<Rightarrow> principal \<Rightarrow> responder" where
  "deleteAction h uid pr =
     (case DeleteAction (manager h) pr uid of
        Some err \<Rightarrow>
          (case err of
             Forbidden m \<Rightarrow> Responder ActionsDelete StatusForbidden (ErrorPayload err)
           | ErrNotFound m \<Rightarrow> Responder ActionsDelete NotFound NoPayload
           | _ \<Rightarrow> Responder ActionsDelete InternalServerError (ErrorPayload err))
      | None \<Rightarrow> Responder ActionsDelete NoContent NoPayload)"

definition patchAction :: "kindHandlers \<Rightarrow> string \<Rightarrow> Action \<Rightarrow> principal \<Rightarrow> responder" where
  "patchAction h uid body pr =
     (case MergeAction (manager h) pr uid body of
        Some err \<Rightarrow>
          (case err of
             Forbidden m \<Rightarrow> Responder ActionsPatch StatusForbidden (ErrorPayload err)
           | ErrInvalidUserInput m \<Rightarrow> Responder ActionsUpdate UnprocessableEntity (ErrorPayload err)
           | _ \<Rightarrow> Responder ActionsUpdate InternalServerError (ErrorPayload err))
      | None \<Rightarrow> Responder ActionsPatch NoContent NoPayload)"

definition addActionReference :: "kindHandlers \<Rightarrow> string \<Rightarrow> string \<Rightarrow> SingleRef \<Rightarrow> principal \<Rightarrow> responder" where
  "addActionReference h uid propertyName body pr =
     (case AddActionReference (manager h) pr uid propertyName body of
        Some err \<Rightarrow>
          (case err of
             Forbidden m \<Rightarrow> Responder ActionsReferencesCreate StatusForbidden (ErrorPayload err)
           | ErrNotFound m \<Rightarrow> Responder ActionsReferencesCreate UnprocessableEntity (ErrorPayload err)
           | ErrInvalidUserInput m \<Rightarrow> Responder ActionsReferencesCreate UnprocessableEntity (ErrorPayload err)
           | _ \<Rightarrow> Responder ActionsReferencesCreate InternalServerError (ErrorPayload err))
      | None \<Rightarrow> Responder ActionsReferencesCreate OK NoPayload)"

definition updateActionReferences :: "kindHandlers \<Rightarrow> string \<Rightarrow> string \<Rightarrow> SingleRef list \<Rightarrow> principal \<Rightarrow> responder" where
  "updateActionReferences h uid propertyName body pr =
     (case UpdateActionReferences (manager h) pr uid propertyName body of
        Some err \<Rightarrow>
          (case err of
             Forbidden m \<Rightarrow> Responder ActionsReferencesUpdate StatusForbidden (ErrorPayload err)
           | ErrNotFound m \<Rightarrow> Responder ActionsReferencesUpdate UnprocessableEntity (ErrorPayload err)
           | ErrInvalidUserInput m \<Rightarrow> Responder ActionsReferencesUpdate UnprocessableEntity (ErrorPayload err)
           | _ \<Rightarrow> Responder ActionsReferencesUpdate InternalServerError (ErrorPayload err))
      | None \<Rightarrow> Responder ActionsReferencesUpdate OK NoPayload)"

definition deleteActionReference :: "kindHandlers \<Rightarrow> string \<Rightarrow> string \<Rightarrow> SingleRef \<Rightarrow> principal \<Rightarrow> responder" where
  "deleteActionReference h uid propertyName body pr =
     (case DeleteActionReference (manager h) pr uid propertyName body of
        Some err \<Rightarrow>
          (case err of
             Forbidden m \<Rightarrow> Responder ActionsReferencesDelete StatusForbidden (ErrorPayload err)
           | ErrNotFound m \<Rightarrow> Responder ActionsReferencesDelete NotFound (ErrorPayload err)
           | ErrInvalidUserInput m \<Rightarrow> Responder ActionsReferencesDelete NotFound (ErrorPayload err)
           | _ \<Rightarrow> Responder ActionsReferencesDelete InternalServerError (ErrorPayload err))
      | None \<Rightarrow> Responder ActionsReferencesDelete NoContent NoPayload)"

text \<open>
  The reading of the specification: one mapping from the kind of the error to the
  status, the same in every handler.
\<close>

definition spec_statusOfError :: "error \<Rightarrow> status" where
  "spec_statusOfError err =
     (case err of
        ErrNotFound m \<Rightarrow> NotFound
      | ErrInvalidUserInput m \<Rightarrow> UnprocessableEntity
      | Forbidden m \<Rightarrow> StatusForbidden
      | _ \<Rightarrow> InternalServerError)"

text \<open>
  The five mappings the handlers implement. All send \<^verbatim>\<open>Forbidden\<close> to 403 and an
  error of no distinguished kind to 500; they differ on \<^verbatim>\<open>NotFound\<close> and
  \<^verbatim>\<open>InvalidUserInput\<close>.
\<close>

definition statusOnWrite :: "error \<Rightarrow> status" where
  "statusOnWrite err =
     (case err of
        Forbidden m \<Rightarrow> StatusForbidden
      | ErrInvalidUserInput m \<Rightarrow> UnprocessableEntity
      | _ \<Rightarrow> InternalServerError)"

definition statusOnRead :: "error \<Rightarrow> status" where
  "statusOnRead err =
     (case err of
        Forbidden m \<Rightarrow> StatusForbidden
      | ErrNotFound m \<Rightarrow> NotFound
      | _ \<Rightarrow> InternalServerError)"

definition statusOnList :: "error \<Rightarrow> status" where
  "statusOnList err =
     (case err of
        Forbidden m \<Rightarrow> StatusForbidden
      | _ \<Rightarrow> InternalServerError)"

definition statusOnReferenceWrite :: "error \<Rightarrow> status" where
  "statusOnReferenceWrite err =
     (case err of
        Forbidden m \<Rightarrow> StatusForbidden
      | ErrNotFound m \<Rightarrow> UnprocessableEntity
      | ErrInvalidUserInput m \<Rightarrow> UnprocessableEntity
      | _ \<Rightarrow> InternalServerError)"

definition statusOnReferenceDelete :: "error \<Rightarrow> status" where
  "statusOnReferenceDelete err =
     (case err of
        Forbidden m \<Rightarrow> StatusForbidden
      | ErrNotFound m \<Rightarrow> NotFound
      | ErrInvalidUserInput m \<Rightarrow> NotFound
      | _ \<Rightarrow> InternalServerError)"

text \<open>A manager every operation of which fails with the given error, and a handler object around it.\<close>

definition failingManager :: "error \<Rightarrow> kindsManager" where
  "failingManager err =
     \<lparr>AddThing = (\<lambda>p b. Inl err), AddAction = (\<lambda>p b. Inl err),
      ValidateThing = (\<lambda>p b. Some err), ValidateAction = (\<lambda>p b. Some err),
      GetThing = (\<lambda>p i u. Inl err), GetAction = (\<lambda>p i u. Inl err),
      GetThings = (\<lambda>p l u. Inl err), GetActions = (\<lambda>p l u. Inl err),
      UpdateThing = (\<lambda>p i b. Inl err), UpdateAction = (\<lambda>p i b. Inl err),
      MergeThing = (\<lambda>p i b. Some err), MergeAction = (\<lambda>p i b. Some err),
      DeleteThing = (\<lambda>p i. Some err), DeleteAction = (\<lambda>p i. Some err),
      AddThingReference = (\<lambda>p i n b. Some err), AddActionReference = (\<lambda>p i n b. Some err),
      UpdateThingReferences = (\<lambda>p i n b. Some err), UpdateActionReferences = (\<lambda>p i n b. Some err),
      DeleteThingReference = (\<lambda>p i n b. Some err), DeleteActionReference = (\<lambda>p i n b. Some err)\<rparr>"

definition handlersOver :: "kindsManager \<Rightarrow> kindHandlers" where
  "handlersOver m =
     \<lparr>manager = m, config_Origin = ''http://localhost:8080'',
      crossref_Parse = (\<lambda>b. Inl (Errorf ''invalid beacon'')),
      deprecations_ByID = (\<lambda>i. \<lparr>DeprecationID = i, Msg = []\<rparr>)\<rparr>"

text \<open>A manager whose two list operations succeed with the given list.\<close>

definition listingManager :: "KindObject list \<Rightarrow> kindsManager" where
  "listingManager xs =
     (failingManager (Errorf ''not implemented''))
       \<lparr>GetThings := (\<lambda>p l u. Inr xs), GetActions := (\<lambda>p l u. Inr xs)\<rparr>"

section \<open>The batch coordinator of a shard\<close>

subsection \<open>Data\<close>

text \<open>
  \<^verbatim>\<open>storobj.Object\<close>, as far as the coordinator reads it: the method \<^verbatim>\<open>ID()\<close> (a
  \<^verbatim>\<open>strfmt.UUID\<close>, which is a string) and the field \<^verbatim>\<open>Vector\<close>. The type of vectors
  (slices of \<^verbatim>\<open>float32\<close>) is a parameter: the coordinator only passes them on.
\<close>

record 'v storobj =
  storobj_ID :: string
  storobj_Vector :: 'v

text \<open>
  \<^verbatim>\<open>kinds.BatchReference\<close> with the fields of its source that
  \<^verbatim>\<open>mergeDocFromBatchReference\<close> and the coordinator read, and \<^verbatim>\<open>kinds.MergeDocument\<close>
  with the fields the former writes. \<^verbatim>\<open>UpdateTime\<close> is an \<^verbatim>\<open>int64\<close>.
\<close>

datatype Kind = Kind_Thing | Kind_Action

record BatchReference =
  From_Kind :: Kind
  From_Class :: string
  From_TargetID :: string
  To :: string

record MergeDocument =
  MergeDocument_Kind :: Kind
  MergeDocument_Class :: string
  MergeDocument_ID :: string
  MergeDocument_UpdateTime :: "64 word"
  MergeDocument_References :: "BatchReference list"

text \<open>
  The mutable parts of a \<^verbatim>\<open>Shard\<close> the coordinator touches: the contents of the
  key-value store \<^verbatim>\<open>s.db\<close> and the state of \<^verbatim>\<open>s.vectorIndex\<close>. Both types are
  parameters.
\<close>

record ('db, 'ix) Shard =
  db :: 'db
  vectorIndex :: 'ix

text \<open>
  What the coordinator calls and the sources under study do not contain, as parameters:
  \<^item> \<^verbatim>\<open>uuid.Parse\<close> and \<^verbatim>\<open>UUID.MarshalBinary\<close> of the uuid library;
  \<^item> \<^verbatim>\<open>s.putObjectInTx\<close> and \<^verbatim>\<open>s.mergeObjectInTx\<close>, which run inside a transaction:
    they take the contents of the store as the transaction sees them and return the
    new contents, or an error; \<^verbatim>\<open>putObjectInTx\<close> also returns the \<^verbatim>\<open>docID\<close> (a
    \<^verbatim>\<open>uint32\<close>) of its status;
  \<^item> the commit of a transaction, which may fail;
  \<^item> \<^verbatim>\<open>s.vectorIndex.Add\<close>, which takes the state of the index and returns nil or an
    error, and the new state;
  \<^item> the clock: \<^verbatim>\<open>time.Now().UnixNano()\<close> as read for the reference with a given
    original index.
\<close>

record ('db, 'ix, 'v) collaborators =
  uuid_Parse :: "string \<Rightarrow> error + 8 word list"
  uuid_MarshalBinary :: "8 word list \<Rightarrow> error + 8 word list"
  putObjectInTx :: "'db \<Rightarrow> 'v storobj \<Rightarrow> 8 word list \<Rightarrow> error + (32 word \<times> 'db)"
  mergeObjectInTx :: "'db \<Rightarrow> MergeDocument \<Rightarrow> 8 word list \<Rightarrow> error + 'db"
  tx_Commit :: "'db \<Rightarrow> error option"
  vectorIndex_Add :: "'ix \<Rightarrow> int \<Rightarrow> 'v \<Rightarrow> error option \<times> 'ix"
  time_Now_UnixNano :: "nat \<Rightarrow> 64 word"

text \<open>\<^verbatim>\<open>context.Context\<close>: \<^verbatim>\<open>ctx.Err()\<close> is non-nil once the context is cancelled or past its deadline.\<close>

record Context =
  ctx_Err :: "error option"

text \<open>
  What a run does to the outside is recorded as a list of events, oldest first: a
  transaction on the store begun by the worker of the chunk starting at an index, its
  commit or its rollback with the error, and a call of \<^verbatim>\<open>VectorIndex.Add\<close> for an
  original index with its arguments and its result. The list is an observer: no
  function reads it.
\<close>

datatype 'v event =
    TxBegin nat
  | TxCommit nat
  | TxRollback nat error
  | VectorAdd nat int 'v "error option"

text \<open>
  The variables of a run of \<^verbatim>\<open>putObjectBatch\<close> or \<^verbatim>\<open>addReferencesBatch\<close>: the maps
  \<^verbatim>\<open>docIDs\<close> and \<^verbatim>\<open>errs\<close> shared by the goroutines, the shard, and the events so far.
  \<^verbatim>\<open>errs\<close> is the value the function returns.
\<close>

record ('db, 'ix, 'v) run =
  docIDs :: "string \<rightharpoonup> 32 word"
  errs :: "nat \<rightharpoonup> error"
  shard :: "('db, 'ix) Shard"
  trace :: "'v event list"

definition startRun :: "('db, 'ix) Shard \<Rightarrow> ('db, 'ix, 'v) run" where
  "startRun s = \<lparr>docIDs = Map.empty, errs = Map.empty, shard = s, trace = []\<rparr>"

subsection \<open>Chunks and goroutines\<close>

definition maxPerTransaction :: nat where
  "maxPerTransaction = 30"

text \<open>
  The loop \<^verbatim>\<open>for i := 0; i < len(objects); i += maxPerTransaction\<close> of both functions:
  the arguments \<^verbatim>\<open>(i, batch)\<close> of the goroutines it starts, in the order in which it
  starts them, from the value of \<open>i\<close> on.
\<close>

function batchJobs :: "nat \<Rightarrow> 'a list \<Rightarrow> (nat \<times> 'a list) list" where
  "batchJobs i objects =
     (if i < length objects then
        (let end = (if i + maxPerTransaction > length objects then length objects
                    else i + maxPerTransaction);
             batch = take (end - i) (drop i objects)
         in (i, batch) # batchJobs (i + maxPerTransaction) objects)
      else [])"
  by pat_completeness auto
termination
  by (relation "measure (\<lambda>(i, objects). length objects - i)") (auto simp: maxPerTransaction_def)

declare batchJobs.simps [simp del]

text \<open>
  The goroutines of one phase run in parallel. Each does its work on the shared state
  in one piece: a transaction of the store is atomic, and the maps are written under
  the mutex, by different goroutines at different keys of \<^verbatim>\<open>errs\<close>. A run is therefore
  modelled as the goroutines taking their turns in some order, and the order is a
  parameter: a list of choices, each picking the next goroutine among those that have
  not run yet. Every list of choices gives an order, and every order comes from some
  list of choices.
\<close>

function schedule :: "nat list \<Rightarrow> 'a list \<Rightarrow> 'a list" where
  "schedule choices [] = []"
| "schedule [] (x # xs) = x # xs"
| "schedule (k # choices) (x # xs) =
     (let j = k mod length (x # xs)
      in (x # xs) ! j # schedule choices (take j (x # xs) @ drop (Suc j) (x # xs)))"
  by pat_completeness auto
termination
  by (relation "measure (\<lambda>(choices, xs). length xs)") auto

subsection \<open>Transactions\<close>

text \<open>
  \<^verbatim>\<open>s.db.Batch(fn)\<close> of the bolt library, by its contract: \<open>fn\<close> runs in a read-write
  transaction on the current contents; if it returns an error the transaction is rolled
  back and the error returned; otherwise the transaction is committed, and an error of
  the commit is returned with the contents unchanged. \<open>fn\<close> is a closure: besides its
  result it leaves the captured variables of the caller as it wrote them, also when it
  fails. The result is those variables, the error or nil, and the contents afterwards.
  The library may run several closures in one transaction and run a closure again
  alone; with closures that depend on the contents only, that is one of the orders of
  separate transactions. The contract covers a store that is open and writable: a
  store that refuses to start a transaction is not modelled.
\<close>

definition db_Batch ::
  "('db \<Rightarrow> error option) \<Rightarrow> ('db \<Rightarrow> 'g \<times> (error + 'db)) \<Rightarrow> 'db \<Rightarrow> 'g \<times> error option \<times> 'db" where
  "db_Batch commit fn cur =
     (case fn cur of
        (g, Inl err) \<Rightarrow> (g, Some err, cur)
      | (g, Inr tx) \<Rightarrow>
          (case commit tx of
             Some err \<Rightarrow> (g, Some err, cur)
           | None \<Rightarrow> (g, None, tx)))"

text \<open>
  The loop \<^verbatim>\<open>for _, object := range batch\<close> inside the transaction of
  \<^verbatim>\<open>putObjectBatch\<close>: it returns at the first error; the docIDs of the objects put before
  that are already in the map.
\<close>

fun putObjects ::
  "('db, 'ix, 'v) collaborators \<Rightarrow> 'v storobj list \<Rightarrow> (string \<rightharpoonup> 32 word) \<Rightarrow> 'db
     \<Rightarrow> (string \<rightharpoonup> 32 word) \<times> (error + 'db)" where
  "putObjects d [] ids tx = (ids, Inr tx)"
| "putObjects d (object # rest) ids tx =
     (case uuid_Parse d (storobj_ID object) of
        Inl err \<Rightarrow> (ids, Inl (Wrap err ''invalid id''))
      | Inr uuidParsed \<Rightarrow>
          (case uuid_MarshalBinary d uuidParsed of
             Inl err \<Rightarrow> (ids, Inl err)
           | Inr idBytes \<Rightarrow>
               (case putObjectInTx d tx object idBytes of
                  Inl err \<Rightarrow> (ids, Inl err)
                | Inr (docID, tx') \<Rightarrow>
                    putObjects d rest (ids(storobj_ID object \<mapsto> docID)) tx')))"

text \<open>The first loop of the closure: \<^verbatim>\<open>affectedIndices = append(affectedIndices, i+j)\<close>.\<close>

definition affectedIndicesOf :: "nat \<Rightarrow> 'a list \<Rightarrow> nat list" where
  "affectedIndicesOf i batch = map (\<lambda>j. i + j) [0..<length batch]"

text \<open>The closure passed to \<^verbatim>\<open>s.db.Batch\<close> by a goroutine of \<^verbatim>\<open>putObjectBatch\<close>.\<close>

definition putObjectsTx ::
  "('db, 'ix, 'v) collaborators \<Rightarrow> nat \<Rightarrow> 'v storobj list \<Rightarrow> (string \<rightharpoonup> 32 word) \<Rightarrow> 'db
     \<Rightarrow> (nat list \<times> (string \<rightharpoonup> 32 word)) \<times> (error + 'db)" where
  "putObjectsTx d i batch ids tx =
     (let affectedIndices = affectedIndicesOf i batch;
          (ids', res) = putObjects d batch ids tx
      in ((affectedIndices, ids'), res))"

text \<open>\<^verbatim>\<open>for _, affected := range affectedIndices { errs[affected] = err }\<close>\<close>

definition recordErr :: "(nat \<rightharpoonup> error) \<Rightarrow> nat list \<Rightarrow> error \<Rightarrow> (nat \<rightharpoonup> error)" where
  "recordErr m0 affectedIndices err = foldl (\<lambda>m affected. m(affected \<mapsto> err)) m0 affectedIndices"

text \<open>A goroutine of the first phase of \<^verbatim>\<open>putObjectBatch\<close>.\<close>

definition putWorker ::
  "('db, 'ix, 'v) collaborators \<Rightarrow> ('db, 'ix, 'v) run \<Rightarrow> nat \<times> 'v storobj list \<Rightarrow> ('db, 'ix, 'v) run" where
  "putWorker d st job =
     (case job of (i, batch) \<Rightarrow>
       (case db_Batch (tx_Commit d) (putObjectsTx d i batch (docIDs st)) (db (shard st)) of
          ((affectedIndices, ids'), Some err, cur) \<Rightarrow>
            st\<lparr>docIDs := ids',
               errs := recordErr (errs st) affectedIndices (Wrap err ''bolt batch tx''),
               shard := (shard st)\<lparr>db := cur\<rparr>,
               trace := trace st @ [TxBegin i, TxRollback i err]\<rparr>
        | ((affectedIndices, ids'), None, cur) \<Rightarrow>
            st\<lparr>docIDs := ids',
               shard := (shard st)\<lparr>db := cur\<rparr>,
               trace := trace st @ [TxBegin i, TxCommit i]\<rparr>))"

text \<open>The first phase, up to \<^verbatim>\<open>wg.Wait()\<close>.\<close>

definition putPhase ::
  "('db, 'ix, 'v) collaborators \<Rightarrow> nat list \<Rightarrow> ('db, 'ix) Shard \<Rightarrow> 'v storobj list \<Rightarrow> ('db, 'ix, 'v) run" where
  "putPhase d choices s objects =
     foldl (putWorker d) (startRun s) (schedule choices (batchJobs 0 objects))"

text \<open>
  The second loop, \<^verbatim>\<open>for i, object := range objects\<close>: the arguments
  \<^verbatim>\<open>(object, docID, index)\<close> of the goroutines it starts. An index with an entry in
  \<^verbatim>\<open>errs\<close> is skipped. A key missing from \<^verbatim>\<open>docIDs\<close> reads as 0.
\<close>

fun addJobs ::
  "(string \<rightharpoonup> 32 word) \<Rightarrow> (nat \<rightharpoonup> error) \<Rightarrow> nat \<Rightarrow> 'v storobj list \<Rightarrow> ('v storobj \<times> int \<times> nat) list" where
  "addJobs ids es i [] = []"
| "addJobs ids es i (object # rest) =
     (if es i \<noteq> None then addJobs ids es (Suc i) rest
      else (let docID = uint (case ids (storobj_ID object) of None \<Rightarrow> 0 | Some v \<Rightarrow> v)
            in (object, docID, i) # addJobs ids es (Suc i) rest))"

text \<open>A goroutine of the second phase.\<close>

definition addWorker ::
  "('db, 'ix, 'v) collaborators \<Rightarrow> ('db, 'ix, 'v) run \<Rightarrow> 'v storobj \<times> int \<times> nat \<Rightarrow> ('db, 'ix, 'v) run" where
  "addWorker d st job =
     (case job of (object, docID, index) \<Rightarrow>
       (case vectorIndex_Add d (vectorIndex (shard st)) docID (storobj_Vector object) of
          (Some err, ix) \<Rightarrow>
            st\<lparr>errs := (errs st)(index \<mapsto> Wrap err ''insert to vector index''),
               shard := (shard st)\<lparr>vectorIndex := ix\<rparr>,
               trace := trace st @ [VectorAdd index docID (storobj_Vector object) (Some err)]\<rparr>
        | (None, ix) \<Rightarrow>
            st\<lparr>shard := (shard st)\<lparr>vectorIndex := ix\<rparr>,
               trace := trace st @ [VectorAdd index docID (storobj_Vector object) None]\<rparr>))"

text \<open>
  \<^verbatim>\<open>putObjectBatch(ctx, objects)\<close>, given the orders in which the goroutines of the two
  phases take their turns. The context is a parameter the body never reads. The result
  is the state of the run at \<^verbatim>\<open>return errs\<close>.
\<close>

definition putObjectBatch ::
  "('db, 'ix, 'v) collaborators \<Rightarrow> nat list \<Rightarrow> nat list \<Rightarrow> Context \<Rightarrow> ('db, 'ix) Shard
     \<Rightarrow> 'v storobj list \<Rightarrow> ('db, 'ix, 'v) run" where
  "putObjectBatch d choices1 choices2 ctx s objects =
     (let st = putPhase d choices1 s objects
      in foldl (addWorker d) st (schedule choices2 (addJobs (docIDs st) (errs st) 0 objects)))"

subsection \<open>References\<close>

definition mergeDocFromBatchReference :: "64 word \<Rightarrow> BatchReference \<Rightarrow> MergeDocument" where
  "mergeDocFromBatchReference now ref =
     \<lparr>MergeDocument_Kind = From_Kind ref,
      MergeDocument_Class = From_Class ref,
      MergeDocument_ID = From_TargetID ref,
      MergeDocument_UpdateTime = now,
      MergeDocument_References = [ref]\<rparr>"

text \<open>
  The loop \<^verbatim>\<open>for _, ref := range batch\<close> inside the transaction of
  \<^verbatim>\<open>addReferencesBatch\<close>; \<open>k\<close> is the original index of the first reference of the list.
\<close>

fun mergeReferences ::
  "('db, 'ix, 'v) collaborators \<Rightarrow> nat \<Rightarrow> BatchReference list \<Rightarrow> 'db \<Rightarrow> error + 'db" where
  "mergeReferences d k [] tx = Inr tx"
| "mergeReferences d k (ref # rest) tx =
     (case uuid_Parse d (From_TargetID ref) of
        Inl err \<Rightarrow> Inl (Wrap err ''invalid id'')
      | Inr uuidParsed \<Rightarrow>
          (case uuid_MarshalBinary d uuidParsed of
             Inl err \<Rightarrow> Inl err
           | Inr idBytes \<Rightarrow>
               (let mergeDoc = mergeDocFromBatchReference (time_Now_UnixNano d k) ref
                in case mergeObjectInTx d tx mergeDoc idBytes of
                     Inl err \<Rightarrow> Inl err
                   | Inr tx' \<Rightarrow> mergeReferences d (Suc k) rest tx')))"

definition mergeReferencesTx ::
  "('db, 'ix, 'v) collaborators \<Rightarrow> nat \<Rightarrow> BatchReference list \<Rightarrow> 'db \<Rightarrow> nat list \<times> (error + 'db)" where
  "mergeReferencesTx d i batch tx = (affectedIndicesOf i batch, mergeReferences d i batch tx)"

text \<open>A goroutine of \<^verbatim>\<open>addReferencesBatch\<close>.\<close>

definition refWorker ::
  "('db, 'ix, 'v) collaborators \<Rightarrow> ('db, 'ix, 'v) run \<Rightarrow> nat \<times> BatchReference list \<Rightarrow> ('db, 'ix, 'v) run" where
  "refWorker d st job =
     (case job of (i, batch) \<Rightarrow>
       (case db_Batch (tx_Commit d) (mergeReferencesTx d i batch) (db (shard st)) of
          (affectedIndices, Some err, cur) \<Rightarrow>
            st\<lparr>errs := recordErr (errs st) affectedIndices (Wrap err ''bolt batch tx''),
               shard := (shard st)\<lparr>db := cur\<rparr>,
               trace := trace st @ [TxBegin i, TxRollback i err]\<rparr>
        | (affectedIndices, None, cur) \<Rightarrow>
            st\<lparr>shard := (shard st)\<lparr>db := cur\<rparr>,
               trace := trace st @ [TxBegin i, TxCommit i]\<rparr>))"

text \<open>
  \<^verbatim>\<open>addReferencesBatch(ctx, refs)\<close>: one phase; after \<^verbatim>\<open>wg.Wait()\<close> it returns
  \<^verbatim>\<open>errs\<close>.
\<close>

definition addReferencesBatch ::
  "('db, 'ix, 'v) collaborators \<Rightarrow> nat list \<Rightarrow> Context \<Rightarrow> ('db, 'ix) Shard
     \<Rightarrow> BatchReference list \<Rightarrow> ('db, 'ix, 'v) run" where
  "addReferencesBatch d choices ctx s refs =
     foldl (refWorker d) (startRun s) (schedule choices (batchJobs 0 refs))"

subsection \<open>Reading the events\<close>

fun txBegins :: "'v event list \<Rightarrow> nat list" where
  "txBegins [] = []"
| "txBegins (TxBegin i # evs) = i # txBegins evs"
| "txBegins (ev # evs) = txBegins evs"

fun vectorAdds :: "'v event list \<Rightarrow> 'v event list" where
  "vectorAdds [] = []"
| "vectorAdds (VectorAdd index docID vec res # evs) = VectorAdd index docID vec res # vectorAdds evs"
| "vectorAdds (ev # evs) = vectorAdds evs"

text \<open>The start of the chunk an original index falls into.\<close>

definition chunkStart :: "nat \<Rightarrow> nat" where
  "chunkStart n = maxPerTransaction * (n div maxPerTransaction)"

subsection \<open>A small shard for examples\<close>

text \<open>
  Vectors are lists of numbers. The store is the list of the uuids put so far with their
  docIDs, which count from 1; putting an object with an empty vector fails; merging into
  an object that is not stored fails. An empty uuid does not parse. The index keeps
  the pairs added to it and refuses the vector \<open>[0]\<close>.
\<close>

definition exampleCollaborators ::
  "((string \<times> 32 word) list, (int \<times> nat list) list, nat list) collaborators" where
  "exampleCollaborators =
     \<lparr>uuid_Parse = (\<lambda>s. if s = [] then Inl (Errorf ''invalid UUID length: 0'') else Inr (replicate 16 0)),
      uuid_MarshalBinary = (\<lambda>u. Inr u),
      putObjectInTx = (\<lambda>tx object idBytes.
         if storobj_Vector object = [] then Inl (ErrInvalidUserInput ''vector has no dimensions'')
         else (case map_of tx (storobj_ID object) of
                 Some docID \<Rightarrow> Inr (docID, tx)
               | None \<Rightarrow> Inr (of_nat (length tx) + 1, tx @ [(storobj_ID object, of_nat (length tx) + 1)]))),
      mergeObjectInTx = (\<lambda>tx mergeDoc idBytes.
         case map_of tx (MergeDocument_ID mergeDoc) of
           None \<Rightarrow> Inl (ErrNotFound ''no object with this id'')
         | Some docID \<Rightarrow> Inr tx),
      tx_Commit = (\<lambda>tx. None),
      vectorIndex_Add = (\<lambda>ix docID vec.
         if vec = [0] then (Some (Errorf ''vector refused''), ix) else (None, ix @ [(docID, vec)])),
      time_Now_UnixNano = (\<lambda>k. of_nat k)\<rparr>"

definition emptyShard :: "((string \<times> 32 word) list, (int \<times> nat list) list) Shard" where
  "emptyShard = \<lparr>db = [], vectorIndex = []\<rparr>"

section \<open>Properties of the include parameter\<close>

lemma parseIncludeParts_class_refmeta:
  "Classification out = RefMeta out \<Longrightarrow>
   Classification (fst (parseIncludeParts out parts)) = RefMeta (fst (parseIncludeParts out parts))"
  by (induction out parts rule: parseIncludeParts.induct) simp_all

lemma parseIncludeParts_class_aux:
  "snd (parseIncludeParts out parts) = None \<Longrightarrow>
   Classification (fst (parseIncludeParts out parts)) =
     (Classification out \<or>
      list_ex (\<lambda>q. q \<in> set [''_classification'', ''classification'']) parts)"
  by (induction out parts rule: parseIncludeParts.induct)
     (simp_all del: list.set split: if_splits)

lemma parseIncludeParts_class:
  "snd (parseIncludeParts out parts) = None \<Longrightarrow>
   Classification (fst (parseIncludeParts out parts)) =
     (Classification out \<or> ''_classification'' \<in> set parts \<or> ''classification'' \<in> set parts)"
  by (auto simp add: parseIncludeParts_class_aux list_ex_iff)

lemma parseIncludeParts_err:
  "snd (parseIncludeParts out parts) =
     (case filter (\<lambda>p. p \<notin> set includeCaseLabels) parts of
        [] \<Rightarrow> None
      | p # rest \<Rightarrow> Some (Errorf (''unrecognized property '' @ [CHR 0x27] @ p @ [CHR 0x27]
                            @ '' in ?include list'')))"
proof (induction out parts rule: parseIncludeParts.induct)
  case (1 out)
  show ?case by simp
next
  case (2 out p ps)
  then show ?case by (simp add: includeCaseLabels_def)
qed

lemma getThing_BadRequest:
  "(statusOf (getThing h uid incl meta pr) = BadRequest) = (snd (parseIncludeParam incl) \<noteq> None)"
  by (cases "parseIncludeParam incl")
     (auto simp: getThing_def split: option.splits sum.splits error.splits)

lemma getAction_BadRequest:
  "(statusOf (getAction h uid incl meta pr) = BadRequest) = (snd (parseIncludeParam incl) \<noteq> None)"
  by (cases "parseIncludeParam incl")
     (auto simp: getAction_def split: option.splits sum.splits error.splits)

lemma getThings_BadRequest:
  "(statusOf (getThings h limit incl meta pr) = BadRequest) = (snd (parseIncludeParam incl) \<noteq> None)"
  by (cases "parseIncludeParam incl")
     (auto simp: getThings_def Let_def split: option.splits sum.splits error.splits)

lemma getActions_BadRequest:
  "(statusOf (getActions h limit incl meta pr) = BadRequest) = (snd (parseIncludeParam incl) \<noteq> None)"
  by (cases "parseIncludeParam incl")
     (auto simp: getActions_def Let_def split: option.splits sum.splits error.splits)

text \<open>
  Claim C7, as the code has it. The specification lets parsing succeed exactly on the
  spellings of its six enrichment values and fail with an \<^verbatim>\<open>InvalidUserInput\<close>
  error otherwise. The code differs in two ways, both visible at the input
  \<^verbatim>\<open>_refMeta\<close>: \<^verbatim>\<open>RefMeta\<close> has no spelling of its own, and the error is a plain
  \<^verbatim>\<open>fmt.Errorf\<close> value, not a \<^verbatim>\<open>kinds.ErrInvalidUserInput\<close>.
\<close>

theorem parseIncludeParam_refMeta_counterexample:
  "''_refMeta'' \<in> set spec_includeSpellings \<and>
   parseIncludeParam (Some ''_refMeta'') =
     (UnderscoreProperties_zero,
      Some (Errorf (''unrecognized property '' @ [CHR 0x27] @ ''_refMeta'' @ [CHR 0x27]
                    @ '' in ?include list'')))"
  by (simp add: parseIncludeParam_def spec_includeSpellings_def spec_enrichmentValues_def)

text \<open>
  Claim C7, amended: an absent include parameter parses to the zero value; a present one
  parses without error exactly when each of its comma-separated parts is one of the
  twenty case labels of the switch (which spell \<^verbatim>\<open>Classification\<close>,
  \<^verbatim>\<open>Interpretation\<close>, \<^verbatim>\<open>NearestNeighbors\<close>, \<^verbatim>\<open>FeatureProjection\<close> and \<^verbatim>\<open>Vector\<close>, not
  \<^verbatim>\<open>RefMeta\<close>); otherwise the result carries the plain error
  \<^verbatim>\<open>unrecognized property '<part>' in ?include list\<close> for the first part that is not a
  label, and the four get and list handlers answer exactly these inputs with
  \<^verbatim>\<open>400 Bad Request\<close>.
\<close>

theorem parseIncludeParam_accepts_exactly_case_labels:
  "parseIncludeParam None = (UnderscoreProperties_zero, None) \<and>
   (snd (parseIncludeParam (Some s)) = None) =
     (set (strings_Split s (CHR '','')) \<subseteq> set includeCaseLabels) \<and>
   snd (parseIncludeParam (Some s)) =
     (case filter (\<lambda>p. p \<notin> set includeCaseLabels) (strings_Split s (CHR '','')) of
        [] \<Rightarrow> None
      | p # rest \<Rightarrow> Some (Errorf (''unrecognized property '' @ [CHR 0x27] @ p @ [CHR 0x27]
                            @ '' in ?include list''))) \<and>
   (statusOf (getThing h uid incl meta pr) = BadRequest) = (snd (parseIncludeParam incl) \<noteq> None) \<and>
   (statusOf (getAction h uid incl meta pr) = BadRequest) = (snd (parseIncludeParam incl) \<noteq> None) \<and>
   (statusOf (getThings h limit incl meta pr) = BadRequest) = (snd (parseIncludeParam incl) \<noteq> None) \<and>
   (statusOf (getActions h limit incl meta pr) = BadRequest) = (snd (parseIncludeParam incl) \<noteq> None) \<and>
   statusCode BadRequest = 400"
proof -
  let ?bad = "filter (\<lambda>p. p \<notin> set includeCaseLabels) (strings_Split s (CHR '',''))"
  have e: "snd (parseIncludeParam (Some s)) =
     (case ?bad of
        [] \<Rightarrow> None
      | p # rest \<Rightarrow> Some (Errorf (''unrecognized property '' @ [CHR 0x27] @ p @ [CHR 0x27]
                            @ '' in ?include list'')))"
    by (simp add: parseIncludeParam_def parseIncludeParts_err)
  have "(snd (parseIncludeParam (Some s)) = None) = (?bad = [])"
    unfolding e by (simp split: list.splits)
  also have "\<dots> = (set (strings_Split s (CHR '','')) \<subseteq> set includeCaseLabels)"
    by (auto simp: filter_empty_conv)
  finally have s: "(snd (parseIncludeParam (Some s)) = None) =
     (set (strings_Split s (CHR '','')) \<subseteq> set includeCaseLabels)" .
  have n: "parseIncludeParam None = (UnderscoreProperties_zero, None)"
    by (simp add: parseIncludeParam_def)
  show ?thesis
    using n s e getThing_BadRequest [of h uid incl meta pr]
      getAction_BadRequest [of h uid incl meta pr]
      getThings_BadRequest [of h limit incl meta pr]
      getActions_BadRequest [of h limit incl meta pr]
    by simp
qed

theorem parseIncludeParam_accepts_exactly_case_labels_witness:
  "snd (parseIncludeParam (Some ''vector,_classification'')) = None \<and>
   snd (parseIncludeParam (Some ''vector,refMeta'')) =
     Some (Errorf (''unrecognized property '' @ [CHR 0x27] @ ''refMeta'' @ [CHR 0x27]
                   @ '' in ?include list''))"
  using parseIncludeParam_accepts_exactly_case_labels [of "''vector,_classification''"]
    parseIncludeParam_accepts_exactly_case_labels [of "''vector,refMeta''"]
  by (simp add: includeCaseLabels_def)

text \<open>
  Claim C9: whatever the include parameter, \<^verbatim>\<open>parseIncludeParam\<close> returns a value whose
  \<^verbatim>\<open>Classification\<close> and \<^verbatim>\<open>RefMeta\<close> flags are equal, so neither is ever set without
  the other; and when parsing succeeds, both are set exactly when one of the parts is
  \<^verbatim>\<open>_classification\<close> or \<^verbatim>\<open>classification\<close>. No part sets \<^verbatim>\<open>RefMeta\<close> alone.
\<close>

theorem classification_enables_refMeta:
  "Classification (fst (parseIncludeParam inp)) = RefMeta (fst (parseIncludeParam inp)) \<and>
   (snd (parseIncludeParam (Some s)) = None \<longrightarrow>
      Classification (fst (parseIncludeParam (Some s))) =
        (''_classification'' \<in> set (strings_Split s (CHR '','')) \<or>
         ''classification'' \<in> set (strings_Split s (CHR '','')))) \<and>
   (snd (parseIncludeParam (Some s)) = None \<longrightarrow>
      RefMeta (fst (parseIncludeParam (Some s))) =
        (''_classification'' \<in> set (strings_Split s (CHR '','')) \<or>
         ''classification'' \<in> set (strings_Split s (CHR '',''))))"
proof -
  have eq: "Classification (fst (parseIncludeParam i)) = RefMeta (fst (parseIncludeParam i))" for i
    by (cases i)
       (simp_all add: parseIncludeParam_def parseIncludeParts_class_refmeta
          UnderscoreProperties_zero_def)
  have cl: "Classification (fst (parseIncludeParam (Some s))) =
        (''_classification'' \<in> set (strings_Split s (CHR '','')) \<or>
         ''classification'' \<in> set (strings_Split s (CHR '','')))"
    if "snd (parseIncludeParam (Some s)) = None"
    using that
    by (simp add: parseIncludeParam_def parseIncludeParts_class UnderscoreProperties_zero_def)
  show ?thesis
    using eq [of inp] eq [of "Some s"] cl by auto
qed

theorem classification_enables_refMeta_witness:
  "snd (parseIncludeParam (Some ''_classification'')) = None \<and>
   Classification (fst (parseIncludeParam (Some ''_classification''))) \<and>
   RefMeta (fst (parseIncludeParam (Some ''_classification''))) \<and>
   snd (parseIncludeParam (Some ''vector'')) = None \<and>
   \<not> RefMeta (fst (parseIncludeParam (Some ''vector'')))"
proof -
  have a: "snd (parseIncludeParam (Some ''_classification'')) = None"
    by (simp add: parseIncludeParam_def)
  have b: "snd (parseIncludeParam (Some ''vector'')) = None"
    by (simp add: parseIncludeParam_def)
  show ?thesis
    using a b classification_enables_refMeta [of "Some ''_classification''" "''_classification''"]
      classification_enables_refMeta [of "Some ''vector''" "''vector''"]
    by simp
qed


section \<open>Properties of the handlers\<close>

text \<open>The status each handler answers with, as a function of what the manager returned.\<close>

lemma addThing_status:
  "statusOf (addThing h body pr) =
     (case AddThing (manager h) pr body of Inl err \<Rightarrow> statusOnWrite err | Inr x \<Rightarrow> OK)"
  by (simp add: addThing_def statusOnWrite_def split: sum.splits error.splits)

lemma validateThing_status:
  "statusOf (validateThing h body pr) =
     (case ValidateThing (manager h) pr body of Some err \<Rightarrow> statusOnWrite err | None \<Rightarrow> OK)"
  by (simp add: validateThing_def statusOnWrite_def split: option.splits error.splits)

lemma getThing_status:
  "statusOf (getThing h uid incl meta pr) =
     (case parseIncludeParam incl of
        (u, Some err) \<Rightarrow> BadRequest
      | (u, None) \<Rightarrow> (case GetThing (manager h) pr uid (applyMeta meta u) of Inl err \<Rightarrow> statusOnRead err | Inr x \<Rightarrow> OK))"
  by (cases "parseIncludeParam incl")
     (simp add: getThing_def statusOnRead_def split: option.splits sum.splits error.splits)

lemma getThings_status:
  "statusOf (getThings h limit incl meta pr) =
     (case parseIncludeParam incl of
        (u, Some err) \<Rightarrow> BadRequest
      | (u, None) \<Rightarrow> (case GetThings (manager h) pr limit (applyMeta meta u) of Inl err \<Rightarrow> statusOnList err | Inr x \<Rightarrow> OK))"
  by (cases "parseIncludeParam incl")
     (simp add: getThings_def statusOnList_def Let_def split: option.splits sum.splits error.splits)

lemma updateThing_status:
  "statusOf (updateThing h uid body pr) =
     (case UpdateThing (manager h) pr uid body of Inl err \<Rightarrow> statusOnWrite err | Inr x \<Rightarrow> OK)"
  by (simp add: updateThing_def statusOnWrite_def split: sum.splits error.splits)

lemma deleteThing_status:
  "statusOf (deleteThing h uid pr) =
     (case DeleteThing (manager h) pr uid of Some err \<Rightarrow> statusOnRead err | None \<Rightarrow> NoContent)"
  by (simp add: deleteThing_def statusOnRead_def split: option.splits error.splits)

lemma patchThing_status:
  "statusOf (patchThing h uid body pr) =
     (case MergeThing (manager h) pr uid body of Some err \<Rightarrow> statusOnWrite err | None \<Rightarrow> NoContent)"
  by (simp add: patchThing_def statusOnWrite_def split: option.splits error.splits)

lemma addThingReference_status:
  "statusOf (addThingReference h uid propertyName ref pr) =
     (case AddThingReference (manager h) pr uid propertyName ref of Some err \<Rightarrow> statusOnReferenceWrite err | None \<Rightarrow> OK)"
  by (simp add: addThingReference_def statusOnReferenceWrite_def split: option.splits error.splits)

lemma updateThingReferences_status:
  "statusOf (updateThingReferences h uid propertyName refs pr) =
     (case UpdateThingReferences (manager h) pr uid propertyName refs of Some err \<Rightarrow> statusOnReferenceWrite err | None \<Rightarrow> OK)"
  by (simp add: updateThingReferences_def statusOnReferenceWrite_def split: option.splits error.splits)

lemma deleteThingReference_status:
  "statusOf (deleteThingReference h uid propertyName ref pr) =
     (case DeleteThingReference (manager h) pr uid propertyName ref of Some err \<Rightarrow> statusOnReferenceDelete err | None \<Rightarrow> NoContent)"
  by (simp add: deleteThingReference_def statusOnReferenceDelete_def split: option.splits error.splits)

lemma addAction_status:
  "statusOf (addAction h body pr) =
     (case AddAction (manager h) pr body of Inl err \<Rightarrow> statusOnWrite err | Inr x \<Rightarrow> OK)"
  by (simp add: addAction_def statusOnWrite_def split: sum.splits error.splits)

lemma validateAction_status:
  "statusOf (validateAction h body pr) =
     (case ValidateAction (manager h) pr body of Some err \<Rightarrow> statusOnWrite err | None \<Rightarrow> OK)"
  by (simp add: validateAction_def statusOnWrite_def split: option.splits error.splits)

lemma getAction_status:
  "statusOf (getAction h uid incl meta pr) =
     (case parseIncludeParam incl of
        (u, Some err) \<Rightarrow> BadRequest
      | (u, None) \<Rightarrow> (case GetAction (manager h) pr uid (applyMeta meta u) of Inl err \<Rightarrow> statusOnRead err | Inr x \<Rightarrow> OK))"
  by (cases "parseIncludeParam incl")
     (simp add: getAction_def statusOnRead_def split: option.splits sum.splits error.splits)

lemma getActions_status:
  "statusOf (getActions h limit incl meta pr) =
     (case parseIncludeParam incl of
        (u, Some err) \<Rightarrow> BadRequest
      | (u, None) \<Rightarrow> (case GetActions (manager h) pr limit (applyMeta meta u) of Inl err \<Rightarrow> statusOnList err | Inr x \<Rightarrow> OK))"
  by (cases "parseIncludeParam incl")
     (simp add: getActions_def statusOnList_def Let_def split: option.splits sum.splits error.splits)

lemma updateAction_status:
  "statusOf (updateAction h uid body pr) =
     (case UpdateAction (manager h) pr uid body of Inl err \<Rightarrow> statusOnWrite err | Inr x \<Rightarrow> OK)"
  by (simp add: updateAction_def statusOnWrite_def split: sum.splits error.splits)

lemma deleteAction_status:
  "statusOf (deleteAction h uid pr) =
     (case DeleteAction (manager h) pr uid of Some err \<Rightarrow> statusOnRead err | None \<Rightarrow> NoContent)"
  by (simp add: deleteAction_def statusOnRead_def split: option.splits error.splits)

lemma patchAction_status:
  "statusOf (patchAction h uid body pr) =
     (case MergeAction (manager h) pr uid body of Some err \<Rightarrow> statusOnWrite err | None \<Rightarrow> NoContent)"
  by (simp add: patchAction_def statusOnWrite_def split: option.splits error.splits)

lemma addActionReference_status:
  "statusOf (addActionReference h uid propertyName ref pr) =
     (case AddActionReference (manager h) pr uid propertyName ref of Some err \<Rightarrow> statusOnReferenceWrite err | None \<Rightarrow> OK)"
  by (simp add: addActionReference_def statusOnReferenceWrite_def split: option.splits error.splits)

lemma updateActionReferences_status:
  "statusOf (updateActionReferences h uid propertyName refs pr) =
     (case UpdateActionReferences (manager h) pr uid propertyName refs of Some err \<Rightarrow> statusOnReferenceWrite err | None \<Rightarrow> OK)"
  by (simp add: updateActionReferences_def statusOnReferenceWrite_def split: option.splits error.splits)

lemma deleteActionReference_status:
  "statusOf (deleteActionReference h uid propertyName ref pr) =
     (case DeleteActionReference (manager h) pr uid propertyName ref of Some err \<Rightarrow> statusOnReferenceDelete err | None \<Rightarrow> NoContent)"
  by (simp add: deleteActionReference_def statusOnReferenceDelete_def split: option.splits error.splits)

lemma status_tables:
  "statusOnWrite (Forbidden m) = StatusForbidden \<and>
   statusOnRead (Forbidden m) = StatusForbidden \<and>
   statusOnList (Forbidden m) = StatusForbidden \<and>
   statusOnReferenceWrite (Forbidden m) = StatusForbidden \<and>
   statusOnReferenceDelete (Forbidden m) = StatusForbidden \<and>
   statusOnWrite (Errorf m) = InternalServerError \<and>
   statusOnRead (Errorf m) = InternalServerError \<and>
   statusOnList (Errorf m) = InternalServerError \<and>
   statusOnReferenceWrite (Errorf m) = InternalServerError \<and>
   statusOnReferenceDelete (Errorf m) = InternalServerError \<and>
   statusOnWrite (Wrap e m) = InternalServerError \<and>
   statusOnRead (Wrap e m) = InternalServerError \<and>
   statusOnList (Wrap e m) = InternalServerError \<and>
   statusOnReferenceWrite (Wrap e m) = InternalServerError \<and>
   statusOnReferenceDelete (Wrap e m) = InternalServerError \<and>
   statusOnWrite (ErrInvalidUserInput m) = UnprocessableEntity \<and>
   statusOnWrite (ErrNotFound m) = InternalServerError \<and>
   statusOnRead (ErrNotFound m) = NotFound \<and>
   statusOnRead (ErrInvalidUserInput m) = InternalServerError \<and>
   statusOnList (ErrNotFound m) = InternalServerError \<and>
   statusOnList (ErrInvalidUserInput m) = InternalServerError \<and>
   statusOnReferenceWrite (ErrNotFound m) = UnprocessableEntity \<and>
   statusOnReferenceWrite (ErrInvalidUserInput m) = UnprocessableEntity \<and>
   statusOnReferenceDelete (ErrNotFound m) = NotFound \<and>
   statusOnReferenceDelete (ErrInvalidUserInput m) = NotFound \<and>
   statusCode StatusForbidden = 403 \<and>
   statusCode NotFound = 404 \<and>
   statusCode UnprocessableEntity = 422 \<and>
   statusCode InternalServerError = 500"
  by (simp add: statusOnWrite_def statusOnRead_def statusOnList_def statusOnReferenceWrite_def statusOnReferenceDelete_def)

text \<open>
  Claim C6, as stated, fails: the manager answers \<^verbatim>\<open>AddThingReference\<close> with a
  \<^verbatim>\<open>NotFound\<close> error, and the handler responds \<^verbatim>\<open>422 Unprocessable Entity\<close> where
  the uniform mapping of the specification gives 404.
\<close>

theorem addThingReference_NotFound_counterexample:
  "AddThingReference (manager (handlersOver (failingManager (ErrNotFound ''no such thing''))))
     None ''id'' ''knows'' \<lparr>Beacon = ''weaviate://localhost/things/id2'', Href = []\<rparr>
     = Some (ErrNotFound ''no such thing'') \<and>
   statusCode (statusOf (addThingReference (handlersOver (failingManager (ErrNotFound ''no such thing'')))
     ''id'' ''knows'' \<lparr>Beacon = ''weaviate://localhost/things/id2'', Href = []\<rparr> None)) = 422 \<and>
   statusCode (spec_statusOfError (ErrNotFound ''no such thing'')) = 404"
  by (simp add: addThingReference_def handlersOver_def failingManager_def spec_statusOfError_def)

text \<open>
  Claim C6, amended: every handler maps \<^verbatim>\<open>Forbidden\<close> to 403 and an error that is none
  of \<^verbatim>\<open>Forbidden\<close>, \<^verbatim>\<open>NotFound\<close>, \<^verbatim>\<open>InvalidUserInput\<close> to 500. The other two kinds
  are mapped handler by handler: create, validate, update and patch send
  \<^verbatim>\<open>InvalidUserInput\<close> to 422 and \<^verbatim>\<open>NotFound\<close> to 500; get and delete send \<^verbatim>\<open>NotFound\<close>
  to 404 and \<^verbatim>\<open>InvalidUserInput\<close> to 500; the list handlers send both to 500; adding a
  reference and updating references send both to 422; deleting a reference sends both
  to 404. The same holds for things and for actions.
\<close>

theorem handlers_error_status:
  "statusOf (addThing h body pr) =
       (case AddThing (manager h) pr body of Inl err \<Rightarrow> statusOnWrite err | Inr x \<Rightarrow> OK) \<and>
   statusOf (validateThing h body pr) =
       (case ValidateThing (manager h) pr body of Some err \<Rightarrow> statusOnWrite err | None \<Rightarrow> OK) \<and>
   statusOf (getThing h uid incl meta pr) =
       (case parseIncludeParam incl of
          (u, Some err) \<Rightarrow> BadRequest
        | (u, None) \<Rightarrow> (case GetThing (manager h) pr uid (applyMeta meta u) of Inl err \<Rightarrow> statusOnRead err | Inr x \<Rightarrow> OK)) \<and>
   statusOf (getThings h limit incl meta pr) =
       (case parseIncludeParam incl of
          (u, Some err) \<Rightarrow> BadRequest
        | (u, None) \<Rightarrow> (case GetThings (manager h) pr limit (applyMeta meta u) of Inl err \<Rightarrow> statusOnList err | Inr x \<Rightarrow> OK)) \<and>
   statusOf (updateThing h uid body pr) =
       (case UpdateThing (manager h) pr uid body of Inl err \<Rightarrow> statusOnWrite err | Inr x \<Rightarrow> OK) \<and>
   statusOf (deleteThing h uid pr) =
       (case DeleteThing (manager h) pr uid of Some err \<Rightarrow> statusOnRead err | None \<Rightarrow> NoContent) \<and>
   statusOf (patchThing h uid body pr) =
       (case MergeThing (manager h) pr uid body of Some err \<Rightarrow> statusOnWrite err | None \<Rightarrow> NoContent) \<and>
   statusOf (addThingReference h uid propertyName ref pr) =
       (case AddThingReference (manager h) pr uid propertyName ref of Some err \<Rightarrow> statusOnReferenceWrite err | None \<Rightarrow> OK) \<and>
   statusOf (updateThingReferences h uid propertyName refs pr) =
       (case UpdateThingReferences (manager h) pr uid propertyName refs of Some err \<Rightarrow> statusOnReferenceWrite err | None \<Rightarrow> OK) \<and>
   statusOf (deleteThingReference h uid propertyName ref pr) =
       (case DeleteThingReference (manager h) pr uid propertyName ref of Some err \<Rightarrow> statusOnReferenceDelete err | None \<Rightarrow> NoContent) \<and>
   statusOf (addAction h body pr) =
       (case AddAction (manager h) pr body of Inl err \<Rightarrow> statusOnWrite err | Inr x \<Rightarrow> OK) \<and>
   statusOf (validateAction h body pr) =
       (case ValidateAction (manager h) pr body of Some err \<Rightarrow> statusOnWrite err | None \<Rightarrow> OK) \<and>
   statusOf (getAction h uid incl meta pr) =
       (case parseIncludeParam incl of
          (u, Some err) \<Rightarrow> BadRequest
        | (u, None) \<Rightarrow> (case GetAction (manager h) pr uid (applyMeta meta u) of Inl err \<Rightarrow> statusOnRead err | Inr x \<Rightarrow> OK)) \<and>
   statusOf (getActions h limit incl meta pr) =
       (case parseIncludeParam incl of
          (u, Some err) \<Rightarrow> BadRequest
        | (u, None) \<Rightarrow> (case GetActions (manager h) pr limit (applyMeta meta u) of Inl err \<Rightarrow> statusOnList err | Inr x \<Rightarrow> OK)) \<and>
   statusOf (updateAction h uid body pr) =
       (case UpdateAction (manager h) pr uid body of Inl err \<Rightarrow> statusOnWrite err | Inr x \<Rightarrow> OK) \<and>
   statusOf (deleteAction h uid pr) =
       (case DeleteAction (manager h) pr uid of Some err \<Rightarrow> statusOnRead err | None \<Rightarrow> NoContent) \<and>
   statusOf (patchAction h uid body pr) =
       (case MergeAction (manager h) pr uid body of Some err \<Rightarrow> statusOnWrite err | None \<Rightarrow> NoContent) \<and>
   statusOf (addActionReference h uid propertyName ref pr) =
       (case AddActionReference (manager h) pr uid propertyName ref of Some err \<Rightarrow> statusOnReferenceWrite err | None \<Rightarrow> OK) \<and>
   statusOf (updateActionReferences h uid propertyName refs pr) =
       (case UpdateActionReferences (manager h) pr uid propertyName refs of Some err \<Rightarrow> statusOnReferenceWrite err | None \<Rightarrow> OK) \<and>
   statusOf (deleteActionReference h uid propertyName ref pr) =
       (case DeleteActionReference (manager h) pr uid propertyName ref of Some err \<Rightarrow> statusOnReferenceDelete err | None \<Rightarrow> NoContent) \<and>
   statusOnWrite (Forbidden m) = StatusForbidden \<and>
   statusOnRead (Forbidden m) = StatusForbidden \<and>
   statusOnList (Forbidden m) = StatusForbidden \<and>
   statusOnReferenceWrite (Forbidden m) = StatusForbidden \<and>
   statusOnReferenceDelete (Forbidden m) = StatusForbidden \<and>
   statusOnWrite (Errorf m) = InternalServerError \<and>
   statusOnRead (Errorf m) = InternalServerError \<and>
   statusOnList (Errorf m) = InternalServerError \<and>
   statusOnReferenceWrite (Errorf m) = InternalServerError \<and>
   statusOnReferenceDelete (Errorf m) = InternalServerError \<and>
   statusOnWrite (Wrap e m) = InternalServerError \<and>
   statusOnRead (Wrap e m) = InternalServerError \<and>
   statusOnList (Wrap e m) = InternalServerError \<and>
   statusOnReferenceWrite (Wrap e m) = InternalServerError \<and>
   statusOnReferenceDelete (Wrap e m) = InternalServerError \<and>
   statusOnWrite (ErrInvalidUserInput m) = UnprocessableEntity \<and>
   statusOnWrite (ErrNotFound m) = InternalServerError \<and>
   statusOnRead (ErrNotFound m) = NotFound \<and>
   statusOnRead (ErrInvalidUserInput m) = InternalServerError \<and>
   statusOnList (ErrNotFound m) = InternalServerError \<and>
   statusOnList (ErrInvalidUserInput m) = InternalServerError \<and>
   statusOnReferenceWrite (ErrNotFound m) = UnprocessableEntity \<and>
   statusOnReferenceWrite (ErrInvalidUserInput m) = UnprocessableEntity \<and>
   statusOnReferenceDelete (ErrNotFound m) = NotFound \<and>
   statusOnReferenceDelete (ErrInvalidUserInput m) = NotFound \<and>
   statusCode StatusForbidden = 403 \<and>
   statusCode NotFound = 404 \<and>
   statusCode UnprocessableEntity = 422 \<and>
   statusCode InternalServerError = 500"
  using addThing_status [of h body pr]
    validateThing_status [of h body pr]
    getThing_status [of h uid incl meta pr]
    getThings_status [of h limit incl meta pr]
    updateThing_status [of h uid body pr]
    deleteThing_status [of h uid pr]
    patchThing_status [of h uid body pr]
    addThingReference_status [of h uid propertyName ref pr]
    updateThingReferences_status [of h uid propertyName refs pr]
    deleteThingReference_status [of h uid propertyName ref pr]
    addAction_status [of h body pr]
    validateAction_status [of h body pr]
    getAction_status [of h uid incl meta pr]
    getActions_status [of h limit incl meta pr]
    updateAction_status [of h uid body pr]
    deleteAction_status [of h uid pr]
    patchAction_status [of h uid body pr]
    addActionReference_status [of h uid propertyName ref pr]
    updateActionReferences_status [of h uid propertyName refs pr]
    deleteActionReference_status [of h uid propertyName ref pr]
    status_tables [of m e]
  by simp

theorem handlers_error_status_witness:
  "statusOf (deleteThingReference (handlersOver (failingManager (ErrInvalidUserInput ''bad reference'')))
     ''id'' ''knows'' \<lparr>Beacon = ''weaviate://localhost/things/id2'', Href = []\<rparr> None) = NotFound \<and>
   statusOf (getAction (handlersOver (failingManager (Forbidden ''no''))) ''id'' None None None)
     = StatusForbidden"
  using handlers_error_status
    [where h = "handlersOver (failingManager (ErrInvalidUserInput ''bad reference''))"
       and uid = "''id''" and propertyName = "''knows''" and pr = None
       and ref = "\<lparr>Beacon = ''weaviate://localhost/things/id2'', Href = []\<rparr>"
       and m = "''bad reference''"]
    handlers_error_status
    [where h = "handlersOver (failingManager (Forbidden ''no''))"
       and uid = "''id''" and pr = None and incl = None and meta = None and m = "''no''"]
  by (simp add: handlersOver_def failingManager_def parseIncludeParam_def)

lemma sint_of_nat_64: "n < 2 ^ 63 \<Longrightarrow> sint (of_nat n :: 64 word) = int n"
proof -
  assume a: "n < 2 ^ 63"
  have "sint (of_nat n :: 64 word) = signed_take_bit 63 (int n)"
    using sint_sbintrunc' [where 'a = 64, of "int n"] by simp
  also have "\<dots> = int n" using a by (simp add: signed_take_bit_int_eq_self)
  finally show ?thesis .
qed

text \<open>
  Claim C10: whenever \<^verbatim>\<open>getThings\<close> or \<^verbatim>\<open>getActions\<close> answers \<^verbatim>\<open>200 OK\<close>, the payload is
  a list response whose \<^verbatim>\<open>TotalResults\<close> is the length of the list in that same
  response, as an \<^verbatim>\<open>int64\<close>; read as a signed number it is that length for every list
  shorter than \<open>2 ^ 63\<close>.
\<close>

theorem list_TotalResults_is_length:
  "(getThings h limit incl meta pr = Responder opn OK pl \<longrightarrow>
      (\<exists>r. pl = ThingsListPayload r \<and>
           Things_TotalResults r = of_nat (length (Things r)) \<and>
           (length (Things r) < 2 ^ 63 \<longrightarrow> sint (Things_TotalResults r) = int (length (Things r))))) \<and>
   (getActions h limit incl meta pr = Responder opn OK pl \<longrightarrow>
      (\<exists>r. pl = ActionsListPayload r \<and>
           Actions_TotalResults r = of_nat (length (Actions r)) \<and>
           (length (Actions r) < 2 ^ 63 \<longrightarrow> sint (Actions_TotalResults r) = int (length (Actions r)))))"
proof -
  have t: "\<exists>r. pl = ThingsListPayload r \<and> Things_TotalResults r = of_nat (length (Things r))"
    if "getThings h limit incl meta pr = Responder opn OK pl"
    using that
    by (auto simp: getThings_def Let_def split: prod.splits option.splits sum.splits error.splits)
  have a: "\<exists>r. pl = ActionsListPayload r \<and> Actions_TotalResults r = of_nat (length (Actions r))"
    if "getActions h limit incl meta pr = Responder opn OK pl"
    using that
    by (auto simp: getActions_def Let_def split: prod.splits option.splits sum.splits error.splits)
  show ?thesis
    using t a by (auto simp: sint_of_nat_64)
qed

theorem list_TotalResults_is_length_witness:
  "getThings (handlersOver (listingManager
       [\<lparr>ID = ''a'', Class = ''City'', Schema = SchemaOther []\<rparr>,
        \<lparr>ID = ''b'', Class = ''City'', Schema = SchemaMap [(''name'', OtherValue ''x'')]\<rparr>]))
     None None None None =
   Responder ThingsList OK (ThingsListPayload
     \<lparr>Things = [\<lparr>ID = ''a'', Class = ''City'', Schema = SchemaOther []\<rparr>,
                \<lparr>ID = ''b'', Class = ''City'', Schema = SchemaMap [(''name'', OtherValue ''x'')]\<rparr>],
      Things_TotalResults = 2, Things_Deprecations = []\<rparr>) \<and>
   sint (2 :: 64 word) = 2 \<and>
   getActions (handlersOver (listingManager
       [\<lparr>ID = ''a'', Class = ''City'', Schema = SchemaOther []\<rparr>]))
     None None (Some True) None =
   Responder ActionsList OK (ActionsListPayload
     \<lparr>Actions = [\<lparr>ID = ''a'', Class = ''City'', Schema = SchemaOther []\<rparr>],
      Actions_Deprecations = [\<lparr>DeprecationID = ''rest-meta-prop'', Msg = []\<rparr>],
      Actions_TotalResults = 1\<rparr>) \<and>
   sint (1 :: 64 word) = 1"
proof -
  let ?xs = "[\<lparr>ID = ''a'', Class = ''City'', Schema = SchemaOther []\<rparr>,
        \<lparr>ID = ''b'', Class = ''City'', Schema = SchemaMap [(''name'', OtherValue ''x'')]\<rparr>]"
  let ?ys = "[\<lparr>ID = ''a'', Class = ''City'', Schema = SchemaOther []\<rparr>]"
  let ?R = "\<lparr>Things = ?xs, Things_TotalResults = 2, Things_Deprecations = []\<rparr>"
  let ?Q = "\<lparr>Actions = ?ys,
      Actions_Deprecations = [\<lparr>DeprecationID = ''rest-meta-prop'', Msg = []\<rparr>],
      Actions_TotalResults = 1\<rparr>"
  have g: "getThings (handlersOver (listingManager ?xs)) None None None None =
           Responder ThingsList OK (ThingsListPayload ?R)"
    by (simp add: getThings_def handlersOver_def listingManager_def failingManager_def
          parseIncludeParam_def applyMeta_def derefBool_def extendKindObject_def
          extendSchemaWithAPILinks_def Let_def)
  have k: "getActions (handlersOver (listingManager ?ys)) None None (Some True) None =
           Responder ActionsList OK (ActionsListPayload ?Q)"
    by (simp add: getActions_def handlersOver_def listingManager_def failingManager_def
          parseIncludeParam_def applyMeta_def derefBool_def extendKindObject_def
          extendSchemaWithAPILinks_def Let_def)
  show ?thesis
    using g k
      list_TotalResults_is_length [of "handlersOver (listingManager ?xs)" None None None None
        ThingsList "ThingsListPayload ?R"]
      list_TotalResults_is_length [of "handlersOver (listingManager ?ys)" None None "Some True" None
        ActionsList "ActionsListPayload ?Q"]
    by simp
qed

section \<open>Properties of the batch coordinator\<close>

lemma mset_schedule: "mset (schedule choices xs) = mset xs"
proof (induction choices xs rule: schedule.induct)
  case (1 choices)
  show ?case by simp
next
  case (2 x xs)
  show ?case by simp
next
  case (3 k choices x xs)
  let ?ys = "x # xs"
  let ?j = "k mod length ?ys"
  have j: "?j < length ?ys" by simp
  have "mset ?ys = mset (take ?j ?ys @ ?ys ! ?j # drop (Suc ?j) ?ys)"
    using id_take_nth_drop [OF j] by simp
  also have "\<dots> = add_mset (?ys ! ?j) (mset (take ?j ?ys @ drop (Suc ?j) ?ys))"
    by simp
  finally have m: "mset ?ys = add_mset (?ys ! ?j) (mset (take ?j ?ys @ drop (Suc ?j) ?ys))" .
  show ?case
    using "3.IH" [of ?j] m by (simp add: Let_def del: take_Suc_Cons drop_Suc_Cons nth_Cons_Suc)
qed

lemma set_schedule: "set (schedule choices xs) = set xs"
  using mset_schedule [of choices xs] by (metis set_mset_mset)


lemma distinct_map_schedule: "distinct (map f (schedule choices xs)) = distinct (map f xs)"
proof -
  have "mset (map f (schedule choices xs)) = mset (map f xs)"
    by (simp add: mset_schedule)
  then show ?thesis by (metis distinct_count_atmost_1 set_mset_mset)
qed

lemma batchJobs_from:
  "batchJobs (30 * k) xs =
     map (\<lambda>c. (30 * c, take 30 (drop (30 * c) xs))) [k..<(length xs + 29) div 30]"
proof (induction "(length xs + 29) div 30 - k" arbitrary: k)
  case 0
  then have "length xs \<le> 30 * k" by arith
  then show ?case using 0 by (subst batchJobs.simps) simp
next
  case (Suc m)
  then have lt: "k < (length xs + 29) div 30" by arith
  then have i: "30 * k < length xs" by arith
  have ih: "batchJobs (30 * Suc k) xs =
     map (\<lambda>c. (30 * c, take 30 (drop (30 * c) xs))) [Suc k..<(length xs + 29) div 30]"
    using Suc by (intro Suc.hyps(1)) arith
  have tk: "take ((if 30 * k + 30 > length xs then length xs else 30 * k + 30) - 30 * k) (drop (30 * k) xs)
        = take 30 (drop (30 * k) xs)"
    by (simp add: min_def)
  have "batchJobs (30 * k) xs = (30 * k, take 30 (drop (30 * k) xs)) # batchJobs (30 * k + 30) xs"
    using i tk by (subst batchJobs.simps) (simp add: maxPerTransaction_def Let_def)
  then show ?case using ih lt by (simp add: upt_conv_Cons add.commute)
qed

lemma batchJobs_eq:
  "batchJobs 0 xs = map (\<lambda>c. (30 * c, take 30 (drop (30 * c) xs))) [0..<(length xs + 29) div 30]"
  using batchJobs_from [of 0 xs] by simp

lemma chunkStart_eq: "chunkStart n = 30 * (n div 30)"
  by (simp add: chunkStart_def maxPerTransaction_def)

lemma batchJobs_distinct: "distinct (map fst (batchJobs 0 xs))"
  by (simp add: batchJobs_eq distinct_map inj_on_def comp_def)

lemma batchJobs_range:
  assumes "(i, b) \<in> set (batchJobs 0 xs)" and "j < length b"
  shows "chunkStart (i + j) = i" and "i + j < length xs" and "b ! j = xs ! (i + j)"
    and "length b \<le> 30"
proof -
  from assms(1) obtain c where c: "i = 30 * c" "b = take 30 (drop (30 * c) xs)"
    by (auto simp: batchJobs_eq)
  from assms(2) c have j: "j < 30" "j < length xs - 30 * c" by auto
  show "chunkStart (i + j) = i" using c j by (simp add: chunkStart_eq)
  show "i + j < length xs" using c j by arith
  show "b ! j = xs ! (i + j)" using c j by simp
  show "length b \<le> 30" using c by simp
qed


lemma foldl_upd:
  "foldl (\<lambda>m a. m(a \<mapsto> e)) m0 as n = (if n \<in> set as then Some e else m0 n)"
  by (induction as arbitrary: m0) auto

lemma recordErr_apply:
  "recordErr m0 (affectedIndicesOf i b) e n =
     (if i \<le> n \<and> n < i + length b then Some e else m0 n)"
proof -
  have "set (affectedIndicesOf i b) = {i..<i + length b}"
    by (auto simp: affectedIndicesOf_def image_iff intro: le_Suc_ex)
  then show ?thesis by (simp add: recordErr_def foldl_upd)
qed





lemma putWorker_abort:
  assumes "snd (putObjects d b (docIDs st) (db (shard st))) = Inl e"
  shows "putWorker d st (i, b) =
     st\<lparr>docIDs := fst (putObjects d b (docIDs st) (db (shard st))),
        errs := recordErr (errs st) (affectedIndicesOf i b) (Wrap e ''bolt batch tx''),
        trace := trace st @ [TxBegin i, TxRollback i e]\<rparr>"
  using assms
  by (cases "putObjects d b (docIDs st) (db (shard st))")
     (simp add: putWorker_def db_Batch_def putObjectsTx_def)

lemma putWorker_cases:
  "(\<exists>e. putWorker d st (i, b) =
       st\<lparr>docIDs := fst (putObjects d b (docIDs st) (db (shard st))),
          errs := recordErr (errs st) (affectedIndicesOf i b) (Wrap e ''bolt batch tx''),
          trace := trace st @ [TxBegin i, TxRollback i e]\<rparr>) \<or>
   (\<exists>tx. snd (putObjects d b (docIDs st) (db (shard st))) = Inr tx \<and>
      putWorker d st (i, b) =
       st\<lparr>docIDs := fst (putObjects d b (docIDs st) (db (shard st))),
          shard := (shard st)\<lparr>db := tx\<rparr>,
          trace := trace st @ [TxBegin i, TxCommit i]\<rparr>)"
proof (cases "putObjects d b (docIDs st) (db (shard st))")
  case (Pair ids' res)
  show ?thesis
  proof (cases res)
    case (Inl e)
    then have "snd (putObjects d b (docIDs st) (db (shard st))) = Inl e"
      using Pair by simp
    from putWorker_abort [OF this] show ?thesis by blast
  next
    case (Inr tx)
    show ?thesis
    proof (cases "tx_Commit d tx")
      case None
      then show ?thesis using Pair Inr
        by (simp add: putWorker_def db_Batch_def putObjectsTx_def)
    next
      case (Some e)
      have "putWorker d st (i, b) =
       st\<lparr>docIDs := fst (putObjects d b (docIDs st) (db (shard st))),
          errs := recordErr (errs st) (affectedIndicesOf i b) (Wrap e ''bolt batch tx''),
          trace := trace st @ [TxBegin i, TxRollback i e]\<rparr>"
        using Pair Inr Some by (simp add: putWorker_def db_Batch_def putObjectsTx_def)
      then show ?thesis by blast
    qed
  qed
qed

lemma putWorker_errs_other:
  "\<not> (i \<le> n \<and> n < i + length b) \<Longrightarrow> errs (putWorker d st (i, b)) n = errs st n"
  using putWorker_cases [of d st i b] by (auto simp: recordErr_apply)



lemma putWorker_vectorIndex: "vectorIndex (shard (putWorker d st (i, b))) = vectorIndex (shard st)"
  using putWorker_cases [of d st i b] by auto

lemma vectorAdds_append: "vectorAdds (evs @ evs') = vectorAdds evs @ vectorAdds evs'"
  by (induction evs rule: vectorAdds.induct) auto

lemma putWorker_vectorAdds: "vectorAdds (trace (putWorker d st (i, b))) = vectorAdds (trace st)"
  using putWorker_cases [of d st i b] by (auto simp: vectorAdds_append)

lemma txBegins_append: "txBegins (evs @ evs') = txBegins evs @ txBegins evs'"
  by (induction evs rule: txBegins.induct) auto



text \<open>A phase is a fold of its workers over the goroutines in the order of their turns.\<close>

lemma putFold_errs_other:
  "\<forall>(i, b) \<in> set jobs. \<not> (i \<le> n \<and> n < i + length b) \<Longrightarrow>
   errs (foldl (putWorker d) st jobs) n = errs st n"
proof (induction jobs arbitrary: st)
  case Nil
  show ?case by simp
next
  case (Cons job jobs)
  obtain i b where job: "job = (i, b)" by (cases job)
  have "errs (foldl (putWorker d) (putWorker d st (i, b)) jobs) n = errs (putWorker d st (i, b)) n"
    using Cons.prems by (intro Cons.IH) simp
  also have "\<dots> = errs st n"
    using Cons.prems job by (intro putWorker_errs_other) simp
  finally show ?case using job by simp
qed



lemma putFold_vectorIndex: "vectorIndex (shard (foldl (putWorker d) st jobs)) = vectorIndex (shard st)"
proof (induction jobs arbitrary: st)
  case Nil
  show ?case by simp
next
  case (Cons job jobs)
  obtain i b where job: "job = (i, b)" by (cases job)
  show ?case using putWorker_vectorIndex [of d st i b] Cons.IH [of "putWorker d st (i, b)"] job
    by simp
qed

lemma putFold_vectorAdds: "vectorAdds (trace (foldl (putWorker d) st jobs)) = vectorAdds (trace st)"
proof (induction jobs arbitrary: st)
  case Nil
  show ?case by simp
next
  case (Cons job jobs)
  obtain i b where job: "job = (i, b)" by (cases job)
  show ?case using putWorker_vectorAdds [of d st i b] Cons.IH [of "putWorker d st (i, b)"] job
    by simp
qed



lemma addJobs_indices:
  "map (\<lambda>job. snd (snd job)) (addJobs ids es k xs) = filter (\<lambda>n. es n = None) [k..<k + length xs]"
proof (induction xs arbitrary: k)
  case Nil
  show ?case by simp
next
  case (Cons x xs)
  have "k < k + length (x # xs)" by simp
  then have "[k..<k + length (x # xs)] = k # [Suc k..<k + length (x # xs)]"
    by (rule upt_conv_Cons)
  then have "[k..<k + length (x # xs)] = k # [Suc k..<Suc k + length xs]"
    by simp
  then show ?case using Cons.IH [of "Suc k"] by (simp add: Let_def)
qed


lemma addJobs_index_free:
  "job \<in> set (addJobs ids es k xs) \<Longrightarrow> es (snd (snd job)) = None"
proof -
  assume "job \<in> set (addJobs ids es k xs)"
  then have "snd (snd job) \<in> set (map (\<lambda>job. snd (snd job)) (addJobs ids es k xs))" by simp
  then show ?thesis unfolding addJobs_indices by simp
qed


lemma addWorker_eq:
  "addWorker d st (object, docID, index) =
     st\<lparr>errs := (case fst (vectorIndex_Add d (vectorIndex (shard st)) docID (storobj_Vector object)) of
                   None \<Rightarrow> errs st
                 | Some err \<Rightarrow> (errs st)(index \<mapsto> Wrap err ''insert to vector index'')),
        shard := (shard st)\<lparr>vectorIndex :=
                   snd (vectorIndex_Add d (vectorIndex (shard st)) docID (storobj_Vector object))\<rparr>,
        trace := trace st @ [VectorAdd index docID (storobj_Vector object)
                   (fst (vectorIndex_Add d (vectorIndex (shard st)) docID (storobj_Vector object)))]\<rparr>"
  by (cases "vectorIndex_Add d (vectorIndex (shard st)) docID (storobj_Vector object)")
     (auto simp: addWorker_def split: option.splits)

lemma addWorker_errs_other:
  "n \<noteq> index \<Longrightarrow> errs (addWorker d st (object, docID, index)) n = errs st n"
  by (simp add: addWorker_eq split: option.splits)

lemma addFold_errs_other:
  "n \<notin> (\<lambda>job. snd (snd job)) ` set jobs \<Longrightarrow> errs (foldl (addWorker d) st jobs) n = errs st n"
proof (induction jobs arbitrary: st)
  case Nil
  show ?case by simp
next
  case (Cons job jobs)
  obtain object docID index where job: "job = (object, docID, index)" by (cases job)
  have "errs (foldl (addWorker d) (addWorker d st job) jobs) n = errs (addWorker d st job) n"
    using Cons.prems by (intro Cons.IH) simp
  also have "\<dots> = errs st n"
    using Cons.prems job by (simp add: addWorker_errs_other)
  finally show ?case by simp
qed



lemma refWorker_cases:
  "(\<exists>e. refWorker d st (i, b) =
       st\<lparr>errs := recordErr (errs st) (affectedIndicesOf i b) (Wrap e ''bolt batch tx''),
          trace := trace st @ [TxBegin i, TxRollback i e]\<rparr>) \<or>
   (\<exists>tx. refWorker d st (i, b) =
       st\<lparr>shard := (shard st)\<lparr>db := tx\<rparr>,
          trace := trace st @ [TxBegin i, TxCommit i]\<rparr>)"
proof (cases "mergeReferences d i b (db (shard st))")
  case (Inl e)
  then have "refWorker d st (i, b) =
       st\<lparr>errs := recordErr (errs st) (affectedIndicesOf i b) (Wrap e ''bolt batch tx''),
          trace := trace st @ [TxBegin i, TxRollback i e]\<rparr>"
    by (simp add: refWorker_def db_Batch_def mergeReferencesTx_def)
  then show ?thesis by blast
next
  case (Inr tx)
  show ?thesis
  proof (cases "tx_Commit d tx")
    case None
    then have "refWorker d st (i, b) =
       st\<lparr>shard := (shard st)\<lparr>db := tx\<rparr>, trace := trace st @ [TxBegin i, TxCommit i]\<rparr>"
      using Inr by (simp add: refWorker_def db_Batch_def mergeReferencesTx_def)
    then show ?thesis by blast
  next
    case (Some e)
    then have "refWorker d st (i, b) =
       st\<lparr>errs := recordErr (errs st) (affectedIndicesOf i b) (Wrap e ''bolt batch tx''),
          trace := trace st @ [TxBegin i, TxRollback i e]\<rparr>"
      using Inr by (simp add: refWorker_def db_Batch_def mergeReferencesTx_def)
    then show ?thesis by blast
  qed
qed

lemma refWorker_frame:
  "vectorIndex (shard (refWorker d st (i, b))) = vectorIndex (shard st) \<and>
   vectorAdds (trace (refWorker d st (i, b))) = vectorAdds (trace st) \<and>
   txBegins (trace (refWorker d st (i, b))) = txBegins (trace st) @ [i]"
  using refWorker_cases [of d st i b] by (auto simp: vectorAdds_append txBegins_append)

lemma refFold_frame:
  "vectorIndex (shard (foldl (refWorker d) st jobs)) = vectorIndex (shard st) \<and>
   vectorAdds (trace (foldl (refWorker d) st jobs)) = vectorAdds (trace st) \<and>
   txBegins (trace (foldl (refWorker d) st jobs)) = txBegins (trace st) @ map fst jobs"
proof (induction jobs arbitrary: st)
  case Nil
  show ?case by simp
next
  case (Cons job jobs)
  obtain i b where job: "job = (i, b)" by (cases job)
  show ?case using refWorker_frame [of d st i b] Cons.IH [of "refWorker d st (i, b)"] job
    by simp
qed









text \<open>
  Claim C5: a run of \<^verbatim>\<open>addReferencesBatch\<close> never calls \<^verbatim>\<open>VectorIndex.Add\<close>, and the
  state of the vector index when it returns is the state it started with.
\<close>

theorem addReferencesBatch_leaves_vector_index:
  "vectorIndex (shard (addReferencesBatch d choices ctx s refs)) = vectorIndex s \<and>
   vectorAdds (trace (addReferencesBatch d choices ctx s refs)) = []"
  using refFold_frame [of d "startRun s" "schedule choices (batchJobs 0 refs)"]
  by (simp add: addReferencesBatch_def startRun_def)

text \<open>
  Claim C8: on the empty list \<^verbatim>\<open>putObjectBatch\<close> starts no goroutine; it returns the empty
  map of errors, the shard (store and vector index) as it was, no docID recorded, and
  no event: no transaction and no call of the index.
\<close>

theorem putObjectBatch_empty:
  "putObjectBatch d choices1 choices2 ctx s [] =
     \<lparr>docIDs = Map.empty, errs = Map.empty, shard = s, trace = []\<rparr> \<and>
   batchJobs 0 ([] :: 'v storobj list) = []"
  by (simp add: putObjectBatch_def putPhase_def batchJobs_eq startRun_def Let_def)

text \<open>
  Claim C4, as stated, fails: with a context that is already cancelled when
  \<^verbatim>\<open>putObjectBatch\<close> is called, a transaction is begun and committed and
  \<^verbatim>\<open>VectorIndex.Add\<close> is called.
\<close>

theorem putObjectBatch_cancelled_counterexample:
  "ctx_Err \<lparr>ctx_Err = Some (Errorf ''context canceled'')\<rparr> \<noteq> None \<and>
   trace (putObjectBatch exampleCollaborators [] [] \<lparr>ctx_Err = Some (Errorf ''context canceled'')\<rparr>
            emptyShard [\<lparr>storobj_ID = ''u1'', storobj_Vector = [1, 2, 3]\<rparr>])
     = [TxBegin 0, TxCommit 0, VectorAdd 0 1 [1, 2, 3] None]"
  by (simp add: putObjectBatch_def putPhase_def batchJobs_eq startRun_def putWorker_def
        db_Batch_def putObjectsTx_def exampleCollaborators_def emptyShard_def addWorker_def
        Let_def affectedIndicesOf_def)

text \<open>
  Claim C4, amended: both batch functions accept a context and never read it; a run with
  any context, cancelled or not, is the run with a live context: the same transactions,
  the same calls of the vector index, the same map of errors.
\<close>

theorem batch_ignores_context:
  "putObjectBatch d choices1 choices2 ctx s objects
     = putObjectBatch d choices1 choices2 \<lparr>ctx_Err = None\<rparr> s objects \<and>
   addReferencesBatch d choices ctx s refs
     = addReferencesBatch d choices \<lparr>ctx_Err = None\<rparr> s refs"
  by (simp add: putObjectBatch_def addReferencesBatch_def)

lemma scheduled_jobs:
  "set (schedule choices (batchJobs 0 objects)) = set (batchJobs 0 objects)"
  "distinct (map fst (schedule choices (batchJobs 0 objects)))"
  by (simp_all add: set_schedule distinct_map_schedule batchJobs_distinct)

text \<open>
  Claim C1: take any chunk \<open>(i, batch)\<close> of a batch put and the state of the run when
  its goroutine takes its turn, after the goroutines \<open>pre\<close>. If putting the items of
  the chunk returns an error in its transaction, the goroutine leaves the shard as it
  found it (the transaction is rolled back: nothing the chunk wrote is in the store),
  and the map \<^verbatim>\<open>putObjectBatch\<close> returns has that error, wrapped with the message
  \<^verbatim>\<open>bolt batch tx\<close>, at every original index of the chunk.
\<close>

theorem putObjectBatch_chunk_abort:
  assumes "schedule choices1 (batchJobs 0 objects) = pre @ (i, batch) # post"
    and "snd (putObjects d batch (docIDs (foldl (putWorker d) (startRun s) pre))
                (db (shard (foldl (putWorker d) (startRun s) pre)))) = Inl err"
  shows "shard (putWorker d (foldl (putWorker d) (startRun s) pre) (i, batch))
           = shard (foldl (putWorker d) (startRun s) pre) \<and>
         (\<forall>j < length batch.
            i + j < length objects \<and> batch ! j = objects ! (i + j) \<and>
            errs (putObjectBatch d choices1 choices2 ctx s objects) (i + j)
              = Some (Wrap err ''bolt batch tx''))"
proof -
  let ?jobs = "schedule choices1 (batchJobs 0 objects)"
  let ?stk = "foldl (putWorker d) (startRun s) pre"
  let ?stk1 = "putWorker d ?stk (i, batch)"
  let ?st1 = "putPhase d choices1 s objects"
  let ?final = "putObjectBatch d choices1 choices2 ctx s objects"
  have w: "?stk1 = ?stk\<lparr>docIDs := fst (putObjects d batch (docIDs ?stk) (db (shard ?stk))),
        errs := recordErr (errs ?stk) (affectedIndicesOf i batch) (Wrap err ''bolt batch tx''),
        trace := trace ?stk @ [TxBegin i, TxRollback i err]\<rparr>"
    by (rule putWorker_abort [OF assms(2)])
  have sh: "shard ?stk1 = shard ?stk" unfolding w by simp
  have mem: "(i, batch) \<in> set (batchJobs 0 objects)"
    using scheduled_jobs(1) [of choices1 objects] assms(1) by auto
  have post: "set post \<subseteq> set (batchJobs 0 objects)"
    using scheduled_jobs(1) [of choices1 objects] assms(1) by auto
  have notin: "i \<notin> fst ` set post"
    using scheduled_jobs(2) [of choices1 objects] assms(1) by auto
  have st1: "?st1 = foldl (putWorker d) ?stk1 post"
    by (simp add: putPhase_def assms(1))
  have each: "i + j < length objects \<and> batch ! j = objects ! (i + j) \<and>
            errs ?final (i + j) = Some (Wrap err ''bolt batch tx'')" if j: "j < length batch" for j
  proof -
    have e1: "errs ?stk1 (i + j) = Some (Wrap err ''bolt batch tx'')"
      unfolding w using j by (simp add: recordErr_apply)
    have "errs ?st1 (i + j) = errs ?stk1 (i + j)"
      unfolding st1
    proof (rule putFold_errs_other, clarify)
      fix i' b' assume m: "(i', b') \<in> set post" and c: "i' \<le> i + j" "i + j < i' + length b'"
      then have "i + j - i' < length b'" by arith
      then have "chunkStart (i' + (i + j - i')) = i'"
        using batchJobs_range(1) [of i' b' objects] m post by blast
      then have "chunkStart (i + j) = i'" using c by simp
      moreover have "chunkStart (i + j) = i" by (rule batchJobs_range(1) [OF mem j])
      ultimately show False using notin m by force
    qed
    then have e2: "errs ?st1 (i + j) = Some (Wrap err ''bolt batch tx'')" using e1 by simp
    have "i + j \<notin> (\<lambda>job. snd (snd job)) ` set (schedule choices2 (addJobs (docIDs ?st1) (errs ?st1) 0 objects))"
      using addJobs_index_free [of _ "docIDs ?st1" "errs ?st1" 0 objects] e2
      by (auto simp: set_schedule)
    then have "errs ?final (i + j) = errs ?st1 (i + j)"
      unfolding putObjectBatch_def Let_def by (rule addFold_errs_other)
    then show ?thesis
      using e2 batchJobs_range(2,3) [OF mem j] by simp
  qed
  show ?thesis using sh each by blast
qed

theorem putObjectBatch_chunk_abort_witness:
  "errs (putObjectBatch exampleCollaborators [] [] \<lparr>ctx_Err = None\<rparr> emptyShard
     [\<lparr>storobj_ID = ''u1'', storobj_Vector = [1, 2, 3]\<rparr>,
      \<lparr>storobj_ID = ''u2'', storobj_Vector = []\<rparr>]) 0
     = Some (Wrap (ErrInvalidUserInput ''vector has no dimensions'') ''bolt batch tx'') \<and>
   errs (putObjectBatch exampleCollaborators [] [] \<lparr>ctx_Err = None\<rparr> emptyShard
     [\<lparr>storobj_ID = ''u1'', storobj_Vector = [1, 2, 3]\<rparr>,
      \<lparr>storobj_ID = ''u2'', storobj_Vector = []\<rparr>]) 1
     = Some (Wrap (ErrInvalidUserInput ''vector has no dimensions'') ''bolt batch tx'') \<and>
   shard (putWorker exampleCollaborators (startRun emptyShard)
     (0, [\<lparr>storobj_ID = ''u1'', storobj_Vector = [1, 2, 3]\<rparr>,
          \<lparr>storobj_ID = ''u2'', storobj_Vector = []\<rparr>])) = emptyShard"
proof -
  let ?objects = "[\<lparr>storobj_ID = ''u1'', storobj_Vector = [1, 2, 3 :: nat]\<rparr>,
                   \<lparr>storobj_ID = ''u2'', storobj_Vector = []\<rparr>]"
  have a: "schedule [] (batchJobs 0 ?objects) = [] @ (0, ?objects) # []"
    by (simp add: batchJobs_eq)
  have b: "snd (putObjects exampleCollaborators ?objects
              (docIDs (foldl (putWorker exampleCollaborators) (startRun emptyShard) []))
              (db (shard (foldl (putWorker exampleCollaborators) (startRun emptyShard) []))))
           = Inl (ErrInvalidUserInput ''vector has no dimensions'')"
    by (simp add: exampleCollaborators_def startRun_def emptyShard_def)
  from putObjectBatch_chunk_abort [OF a b, of "[]" "\<lparr>ctx_Err = None\<rparr>"]
  show ?thesis by (simp add: startRun_def All_less_Suc)
qed



end
